theory Spec2Isabelle
  imports Complex_Main
begin

text \<open>
  A model of the near-Earth-object pipeline of this repository: the fetch client, the
  record normalizer and the collection driver of \<open>data_extraction.py\<close>, and the store
  writer of \<open>database_setup.py\<close>. Exceptions are values of a sum type, the mutable
  extractor object and the outside world are a state that is passed along, and the
  \<open>while\<close> loop of the driver is a recursive function with a termination proof. The
  \<open>print\<close> calls are left out. The constants of the absent \<open>config\<close> module
  (\<open>TARGET_RECORDS\<close>, the URL and the key) are parameters or do not matter.
\<close>

section \<open>Python values and the builtins the pipeline calls\<close>

text \<open>
  The decoded JSON body of an API response is a Python value: \<open>None\<close>, a bool, an int, a
  float, a str, a list or a dict with string keys. A dict is kept as the list of its items
  in insertion order (a dict has each key once; a lookup takes the first item with the key). The type \<open>'f\<close> stands for Python's float values; nothing in the
  pipeline computes with them, so they stay abstract.
\<close>

datatype 'f pyval =
    PNone
  | PBool bool
  | PInt int
  | PFloat 'f
  | PStr string
  | PList "'f pyval list"
  | PDict "(string \<times> 'f pyval) list"

datatype error =
    KeyError
  | TypeError
  | ValueError
  | OverflowError
  | AttributeError
  | OperationalError
  | BindingError

text \<open>
  The conversions \<open>int(...)\<close> and \<open>float(...)\<close> are Python builtins. Their behaviour on
  strings (the literal grammar), on floats (truncation, failing on infinities) and on big
  ints (rounding, overflow) is a parameter of the model, as is the test \<open>x == 0.0\<close> that
  the truth value of a float needs.
\<close>

record 'f builtins =
  int_of_str :: "string \<Rightarrow> error + int"
  int_of_float :: "'f \<Rightarrow> error + int"
  float_of_str :: "string \<Rightarrow> error + 'f"
  float_of_int :: "int \<Rightarrow> error + 'f"
  float_is_zero :: "'f \<Rightarrow> bool"

fun py_int :: "'f builtins \<Rightarrow> 'f pyval \<Rightarrow> error + int" where
  "py_int B (PInt n) = Inr n"
| "py_int B (PBool b) = Inr (if b then 1 else 0)"
| "py_int B (PFloat x) = int_of_float B x"
| "py_int B (PStr s) = int_of_str B s"
| "py_int B PNone = Inl TypeError"
| "py_int B (PList xs) = Inl TypeError"
| "py_int B (PDict kvs) = Inl TypeError"

fun py_float :: "'f builtins \<Rightarrow> 'f pyval \<Rightarrow> error + 'f" where
  "py_float B (PFloat x) = Inr x"
| "py_float B (PInt n) = float_of_int B n"
| "py_float B (PBool b) = float_of_int B (if b then 1 else 0)"
| "py_float B (PStr s) = float_of_str B s"
| "py_float B PNone = Inl TypeError"
| "py_float B (PList xs) = Inl TypeError"
| "py_float B (PDict kvs) = Inl TypeError"

text \<open>The truth value of an object, as \<open>if neo_data:\<close> takes it.\<close>

fun truthy :: "'f builtins \<Rightarrow> 'f pyval \<Rightarrow> bool" where
  "truthy B PNone = False"
| "truthy B (PBool b) = b"
| "truthy B (PInt n) = (n \<noteq> 0)"
| "truthy B (PFloat x) = (\<not> float_is_zero B x)"
| "truthy B (PStr s) = (s \<noteq> [])"
| "truthy B (PList xs) = (xs \<noteq> [])"
| "truthy B (PDict kvs) = (kvs \<noteq> [])"

text \<open>\<open>v[k]\<close> with a string key: only a dict can answer; a missing key is a KeyError.\<close>

fun py_getitem :: "'f pyval \<Rightarrow> string \<Rightarrow> error + 'f pyval" where
  "py_getitem (PDict kvs) k = (case map_of kvs k of None \<Rightarrow> Inl KeyError | Some v \<Rightarrow> Inr v)"
| "py_getitem v k = Inl TypeError"

text \<open>\<open>v.get(k, d)\<close>: a method of dicts only.\<close>

fun py_get :: "'f pyval \<Rightarrow> string \<Rightarrow> 'f pyval \<Rightarrow> error + 'f pyval" where
  "py_get (PDict kvs) k d = (case map_of kvs k of None \<Rightarrow> Inr d | Some v \<Rightarrow> Inr v)"
| "py_get v k d = Inl AttributeError"

text \<open>\<open>v.items()\<close>: a method of dicts only.\<close>

fun py_items :: "'f pyval \<Rightarrow> error + (string \<times> 'f pyval) list" where
  "py_items (PDict kvs) = Inr kvs"
| "py_items v = Inl AttributeError"

text \<open>
  \<open>for x in v\<close>: a list gives its elements, a dict its keys, a str its characters (each a
  str of length one); the other values are not iterable.
\<close>

fun py_iter :: "'f pyval \<Rightarrow> error + 'f pyval list" where
  "py_iter (PList xs) = Inr xs"
| "py_iter (PDict kvs) = Inr (map (\<lambda>kv. PStr (fst kv)) kvs)"
| "py_iter (PStr s) = Inr (map (\<lambda>c. PStr [c]) s)"
| "py_iter v = Inl TypeError"

text \<open>Sequencing of computations that may raise: the first error wins.\<close>

fun bindE :: "error + 'a \<Rightarrow> ('a \<Rightarrow> error + 'b) \<Rightarrow> error + 'b" where
  "bindE (Inl e) f = Inl e"
| "bindE (Inr x) f = f x"

section \<open>Record Normalizer (data\_extraction.py, extract\_asteroid\_fields)\<close>

text \<open>
  The two dicts built per close approach. The key \<open>'id'\<close> of the object dict is the field
  \<open>neo_id\<close> here (\<open>id\<close> is the identity function of HOL). \<open>name\<close>,
  \<open>is_potentially_hazardous_asteroid\<close>, \<open>close_approach_date\<close> and \<open>orbiting_body\<close> are
  stored as found, with no conversion.
\<close>

record 'f asteroid_info =
  neo_id :: int
  name :: "'f pyval"
  absolute_magnitude_h :: 'f
  estimated_diameter_min_km :: 'f
  estimated_diameter_max_km :: 'f
  is_potentially_hazardous_asteroid :: "'f pyval"

record 'f approach_info =
  neo_reference_id :: int
  close_approach_date :: "'f pyval"
  relative_velocity_kmph :: 'f
  astronomical :: 'f
  miss_distance_km :: 'f
  miss_distance_lunar :: 'f
  orbiting_body :: "'f pyval"

text \<open>
  What the program touches besides its result: the two accumulator lists of the extractor
  object, and the outside world as a trace of the requests sent and the delays slept,
  with the number of requests sent so far.
\<close>

datatype event = Get string string | Sleep nat

record 'f state =
  asteroid_data :: "'f asteroid_info list"
  approach_data :: "'f approach_info list"
  calls :: nat
  trace :: "event list"

definition asteroid_info_of :: "'f builtins \<Rightarrow> 'f pyval \<Rightarrow> error + 'f asteroid_info" where
  "asteroid_info_of B asteroid =
     bindE (bindE (py_getitem asteroid ''id'') (py_int B)) (\<lambda>i.
     bindE (py_getitem asteroid ''name'') (\<lambda>n.
     bindE (bindE (py_get asteroid ''absolute_magnitude_h'' (PInt 0)) (py_float B)) (\<lambda>h.
     bindE (bindE (bindE (bindE (py_getitem asteroid ''estimated_diameter'')
                    (\<lambda>d. py_getitem d ''kilometers''))
                    (\<lambda>d. py_getitem d ''estimated_diameter_min'')) (py_float B)) (\<lambda>lo.
     bindE (bindE (bindE (bindE (py_getitem asteroid ''estimated_diameter'')
                    (\<lambda>d. py_getitem d ''kilometers''))
                    (\<lambda>d. py_getitem d ''estimated_diameter_max'')) (py_float B)) (\<lambda>hi.
     bindE (py_getitem asteroid ''is_potentially_hazardous_asteroid'') (\<lambda>z.
     Inr \<lparr> neo_id = i, name = n, absolute_magnitude_h = h,
           estimated_diameter_min_km = lo, estimated_diameter_max_km = hi,
           is_potentially_hazardous_asteroid = z \<rparr>))))))"

definition approach_info_of :: "'f builtins \<Rightarrow> 'f pyval \<Rightarrow> 'f pyval \<Rightarrow> error + 'f approach_info" where
  "approach_info_of B asteroid approach =
     bindE (bindE (py_getitem asteroid ''id'') (py_int B)) (\<lambda>i.
     bindE (py_getitem approach ''close_approach_date'') (\<lambda>d.
     bindE (bindE (bindE (py_getitem approach ''relative_velocity'')
                    (\<lambda>r. py_getitem r ''kilometers_per_hour'')) (py_float B)) (\<lambda>v.
     bindE (bindE (bindE (py_getitem approach ''miss_distance'')
                    (\<lambda>m. py_getitem m ''astronomical'')) (py_float B)) (\<lambda>au.
     bindE (bindE (bindE (py_getitem approach ''miss_distance'')
                    (\<lambda>m. py_getitem m ''kilometers'')) (py_float B)) (\<lambda>km.
     bindE (bindE (bindE (py_getitem approach ''miss_distance'')
                    (\<lambda>m. py_getitem m ''lunar'')) (py_float B)) (\<lambda>lu.
     bindE (py_getitem approach ''orbiting_body'') (\<lambda>ob.
     Inr \<lparr> neo_reference_id = i, close_approach_date = d, relative_velocity_kmph = v,
           astronomical = au, miss_distance_km = km, miss_distance_lunar = lu,
           orbiting_body = ob \<rparr>)))))))"

text \<open>
  The innermost loop, \<open>for approach in asteroid['close_approach_data']\<close>: both appends
  are in its body, so every close approach appends one copy of \<open>asteroid_info\<close> and one
  \<open>approach_info\<close>. An exception leaves the loop with the lists as they are at that moment.
\<close>

fun extract_approaches ::
  "'f builtins \<Rightarrow> 'f pyval \<Rightarrow> 'f asteroid_info \<Rightarrow> 'f pyval list \<Rightarrow> 'f state
     \<Rightarrow> (error \<times> 'f state) + 'f state" where
  "extract_approaches B asteroid info [] s = Inr s"
| "extract_approaches B asteroid info (approach # rest) s =
     (case approach_info_of B asteroid approach of
        Inl e \<Rightarrow> Inl (e, s)
      | Inr a \<Rightarrow> extract_approaches B asteroid info rest
                 (s\<lparr>asteroid_data := asteroid_data s @ [info],
                    approach_data := approach_data s @ [a]\<rparr>))"

text \<open>The body of \<open>for asteroid in asteroids\<close>.\<close>

definition extract_asteroid ::
  "'f builtins \<Rightarrow> 'f pyval \<Rightarrow> 'f state \<Rightarrow> (error \<times> 'f state) + 'f state" where
  "extract_asteroid B asteroid s =
     (case asteroid_info_of B asteroid of
        Inl e \<Rightarrow> Inl (e, s)
      | Inr info \<Rightarrow>
          (case bindE (py_getitem asteroid ''close_approach_data'') py_iter of
             Inl e \<Rightarrow> Inl (e, s)
           | Inr approaches \<Rightarrow> extract_approaches B asteroid info approaches s))"

fun extract_asteroids ::
  "'f builtins \<Rightarrow> 'f pyval list \<Rightarrow> 'f state \<Rightarrow> (error \<times> 'f state) + 'f state" where
  "extract_asteroids B [] s = Inr s"
| "extract_asteroids B (asteroid # rest) s =
     (case extract_asteroid B asteroid s of
        Inl e \<Rightarrow> Inl e
      | Inr s' \<Rightarrow> extract_asteroids B rest s')"

text \<open>The outer loop, \<open>for date, asteroids in neo_data['near_earth_objects'].items()\<close>.\<close>

fun extract_dates ::
  "'f builtins \<Rightarrow> (string \<times> 'f pyval) list \<Rightarrow> 'f state \<Rightarrow> (error \<times> 'f state) + 'f state" where
  "extract_dates B [] s = Inr s"
| "extract_dates B ((date, asteroids) # rest) s =
     (case py_iter asteroids of
        Inl e \<Rightarrow> Inl (e, s)
      | Inr as \<Rightarrow>
          (case extract_asteroids B as s of
             Inl e \<Rightarrow> Inl e
           | Inr s' \<Rightarrow> extract_dates B rest s'))"

definition extract_asteroid_fields ::
  "'f builtins \<Rightarrow> 'f pyval \<Rightarrow> 'f state \<Rightarrow> (error \<times> 'f state) + 'f state" where
  "extract_asteroid_fields B neo_data s =
     (case bindE (py_getitem neo_data ''near_earth_objects'') py_items of
        Inl e \<Rightarrow> Inl (e, s)
      | Inr items \<Rightarrow> extract_dates B items s)"

section \<open>Fetch Client (data\_extraction.py, fetch\_neo\_data)\<close>

text \<open>
  What one \<open>requests.get\<close> can come to: an exception of the requests library (no
  connection, timeout, too many redirects), or a response with a status code and a body.
  The body is \<open>Some v\<close> when \<open>response.json()\<close> decodes it to \<open>v\<close> and \<open>None\<close> when it is
  not JSON, in which case \<open>response.json()\<close> raises the library's JSONDecodeError, itself a
  RequestException. \<open>response.raise_for_status()\<close> raises HTTPError for the status codes
  from 400 to 599 and for no other.

  The world answers the n-th request of a run with \<open>world n\<close>.
\<close>

datatype 'f http_outcome = RequestFailed | Response int "'f pyval option"

definition raise_for_status :: "int \<Rightarrow> bool" where
  "raise_for_status status_code = (400 \<le> status_code \<and> status_code < 600)"

definition fetch_neo_data ::
  "(nat \<Rightarrow> 'f http_outcome) \<Rightarrow> string \<Rightarrow> string \<Rightarrow> 'f state \<Rightarrow> 'f pyval \<times> 'f state" where
  "fetch_neo_data world start_date end_date s =
     (let s' = s\<lparr>calls := Suc (calls s), trace := trace s @ [Get start_date end_date]\<rparr>
      in case world (calls s) of
           RequestFailed \<Rightarrow> (PNone, s')
         | Response status_code body \<Rightarrow>
             if raise_for_status status_code then (PNone, s')
             else (case body of None \<Rightarrow> (PNone, s') | Some v \<Rightarrow> (v, s')))"

section \<open>Calendar dates\<close>

text \<open>
  The date part of a \<open>datetime\<close> (the time of day stays at midnight throughout).
  \<open>d + timedelta(days=n)\<close> is \<open>add_days d n\<close>: n steps to the next day of the Gregorian
  calendar.
\<close>

record date =
  year :: nat
  month :: nat
  day :: nat

definition is_leap :: "nat \<Rightarrow> bool" where
  "is_leap y = ((y mod 4 = 0 \<and> y mod 100 \<noteq> 0) \<or> y mod 400 = 0)"

definition days_in_month :: "nat \<Rightarrow> nat \<Rightarrow> nat" where
  "days_in_month y m =
     (if m = 2 then (if is_leap y then 29 else 28)
      else if m = 4 \<or> m = 6 \<or> m = 9 \<or> m = 11 then 30
      else 31)"

definition next_day :: "date \<Rightarrow> date" where
  "next_day d =
     (if day d < days_in_month (year d) (month d) then d\<lparr>day := day d + 1\<rparr>
      else if month d < 12 then d\<lparr>month := month d + 1, day := 1\<rparr>
      else \<lparr>year = year d + 1, month = 1, day = 1\<rparr>)"

primrec add_days :: "date \<Rightarrow> nat \<Rightarrow> date" where
  "add_days d 0 = d"
| "add_days d (Suc n) = add_days (next_day d) n"

text \<open>\<open>strftime("%Y-%m-%d")\<close>, for the four-digit years.\<close>

definition dec_digit :: "nat \<Rightarrow> char" where
  "dec_digit n = ''0123456789'' ! (n mod 10)"

definition strftime :: "date \<Rightarrow> string" where
  "strftime d =
     [dec_digit (year d div 1000), dec_digit (year d div 100), dec_digit (year d div 10),
      dec_digit (year d), CHR ''-'',
      dec_digit (month d div 10), dec_digit (month d), CHR ''-'',
      dec_digit (day d div 10), dec_digit (day d)]"

section \<open>Collection Driver (data\_extraction.py, collect\_data)\<close>

definition sleep :: "nat \<Rightarrow> 'f state \<Rightarrow> 'f state" where
  "sleep n s = s\<lparr>trace := trace s @ [Sleep n]\<rparr>"

text \<open>
  One pass through the body of \<open>while total_records < TARGET_RECORDS\<close>, up to and
  including \<open>start_date = end_date + timedelta(days=1)\<close>, which is outside the
  \<open>if neo_data: ... else: ...\<close> and so runs on both branches. The result is the new
  \<open>start_date\<close>, the new \<open>total_records\<close> and the new state.
\<close>

definition collect_body ::
  "'f builtins \<Rightarrow> (nat \<Rightarrow> 'f http_outcome) \<Rightarrow> date \<Rightarrow> int \<Rightarrow> 'f state
     \<Rightarrow> (error \<times> 'f state) + (date \<times> int \<times> 'f state)" where
  "collect_body B world start_date total_records s =
     (let end_date = add_days start_date 6;
          start_str = strftime start_date;
          end_str = strftime end_date;
          (neo_data, s1) = fetch_neo_data world start_str end_str s
      in if truthy B neo_data then
           (case extract_asteroid_fields B neo_data s1 of
              Inl e \<Rightarrow> Inl e
            | Inr s2 \<Rightarrow>
                Inr (add_days end_date 1, int (length (asteroid_data s2)), sleep 1 s2))
         else Inr (add_days end_date 1, total_records, sleep 5 s1))"

text \<open>
  The loop. \<open>TARGET_RECORDS\<close> comes from the configuration module and is the parameter
  \<open>T\<close>. The result is the state of the local variables and of the extractor when the loop
  is left: by its condition, or by the \<open>break\<close> of the safety check.
\<close>

function collect_loop ::
  "'f builtins \<Rightarrow> int \<Rightarrow> (nat \<Rightarrow> 'f http_outcome) \<Rightarrow> date \<Rightarrow> int \<Rightarrow> 'f state
     \<Rightarrow> (error \<times> 'f state) + (date \<times> int \<times> 'f state)" where
  "collect_loop B T world start_date total_records s =
     (if total_records < T then
        (case collect_body B world start_date total_records s of
           Inl e \<Rightarrow> Inl e
         | Inr (start_date', total_records', s') \<Rightarrow>
             if year start_date' > 2025 then Inr (start_date', total_records', s')
             else collect_loop B T world start_date' total_records' s')
      else Inr (start_date, total_records, s))"
  by pat_completeness auto

text \<open>
  Termination: every step to the next day within a year up to 2025 lowers the measure
  below, and the years never go down; the loop goes on only while the year of the new
  start date is at most 2025.
\<close>

definition date_measure :: "date \<Rightarrow> nat" where
  "date_measure d = (2026 - year d) * 416 + (13 - month d) * 32 + (32 - day d)"

termination collect_loop
proof (relation "measure (\<lambda>(B, T, world, start_date, total_records, s). date_measure start_date)")
  show "wf (measure (\<lambda>(B :: 'a builtins, T :: int, world :: nat \<Rightarrow> 'a http_outcome,
                       start_date, total_records :: int, s :: 'a state). date_measure start_date))"
    by simp
next
  fix B :: "'a builtins" and T :: int and world :: "nat \<Rightarrow> 'a http_outcome"
    and start_date total_records and s :: "'a state" and r start_date' y total_records' s'
  assume "collect_body B world start_date total_records s = Inr r"
    and "(start_date', y) = r" and "(total_records', s') = y"
    and "\<not> 2025 < year start_date'"
  then have b: "collect_body B world start_date total_records s = Inr (start_date', total_records', s')"
    and yr: "year start_date' \<le> 2025"
    by auto
  have years: "year d \<le> year (add_days d n)" for d n
  proof (induction n arbitrary: d)
    case 0
    show ?case by simp
  next
    case (Suc n)
    have "year d \<le> year (next_day d)" by (simp add: next_day_def)
    also have "\<dots> \<le> year (add_days (next_day d) n)" by (rule Suc.IH)
    finally show ?case by simp
  qed
  have lower: "date_measure (next_day d) < date_measure d" if "year d \<le> 2025" for d
  proof -
    have "days_in_month (year d) (month d) \<le> 31" by (simp add: days_in_month_def)
    with that show ?thesis
      by (cases "day d < days_in_month (year d) (month d)"; cases "month d < 12")
         (simp_all add: next_day_def date_measure_def)
  qed
  have lowers: "year (add_days d (Suc n)) \<le> 2025 \<Longrightarrow>
      date_measure (add_days d (Suc n)) < date_measure d" for d n
  proof (induction n arbitrary: d)
    case 0
    have "year d \<le> year (next_day d)" by (simp add: next_day_def)
    with 0 have "year d \<le> 2025" by simp
    then show ?case by (simp add: lower)
  next
    case (Suc n)
    have "year d \<le> year (add_days d (Suc (Suc n)))" by (rule years)
    with Suc.prems have "year d \<le> 2025" by simp
    then have "date_measure (next_day d) < date_measure d" by (rule lower)
    moreover from Suc.prems have "year (add_days (next_day d) (Suc n)) \<le> 2025" by simp
    then have "date_measure (add_days (next_day d) (Suc n)) < date_measure (next_day d)"
      by (rule Suc.IH)
    ultimately show ?case by simp
  qed
  have "add_days (add_days d m) n = add_days d (m + n)" for d m n
    by (induction m arbitrary: d) simp_all
  then have "add_days (add_days start_date 6) 1 = add_days start_date (6 + 1)" .
  then have "add_days (add_days start_date 6) 1 = add_days start_date (Suc 6)"
    by simp
  moreover from b have "start_date' = add_days (add_days start_date 6) 1"
    unfolding collect_body_def Let_def
    by (auto simp del: add_days.simps split: prod.splits if_splits sum.splits)
  ultimately have "start_date' = add_days start_date (Suc 6)"
    by simp
  with yr have "date_measure start_date' < date_measure start_date"
    using lowers [of start_date 6] by simp
  then show "((B, T, world, start_date', total_records', s'), (B, T, world, start_date, total_records, s))
      \<in> measure (\<lambda>(B, T, world, start_date, total_records, s). date_measure start_date)"
    by simp
qed

declare collect_loop.simps [simp del]

text \<open>
  \<open>xs[:T]\<close>: the first T elements, and for a negative T all but the last \<open>-T\<close>.
\<close>

definition py_slice_to :: "'a list \<Rightarrow> int \<Rightarrow> 'a list" where
  "py_slice_to xs T = (if 0 \<le> T then take (nat T) xs else take (nat (int (length xs) + T)) xs)"

text \<open>
  \<open>collect_data\<close>: the loop from \<open>datetime.strptime("2024-01-01", "%Y-%m-%d")\<close> with
  \<open>total_records = 0\<close>, then the trimming of both lists. The value returned is the pair of
  the two lists of the final state.
\<close>

definition first_day :: date where
  "first_day = \<lparr>year = 2024, month = 1, day = 1\<rparr>"

definition collect_data ::
  "'f builtins \<Rightarrow> int \<Rightarrow> (nat \<Rightarrow> 'f http_outcome) \<Rightarrow> 'f state \<Rightarrow> (error \<times> 'f state) + 'f state" where
  "collect_data B T world s =
     (case collect_loop B T world first_day 0 s of
        Inl e \<Rightarrow> Inl e
      | Inr (start_date, total_records, s') \<Rightarrow>
          Inr (s'\<lparr>asteroid_data := py_slice_to (asteroid_data s') T,
                 approach_data := py_slice_to (approach_data s') T\<rparr>))"

text \<open>\<open>NASADataExtractor()\<close>: both lists empty; nothing requested yet.\<close>

definition new_extractor :: "'f state" where
  "new_extractor = \<lparr>asteroid_data = [], approach_data = [], calls = 0, trace = []\<rparr>"

section \<open>Store Writer (database\_setup.py)\<close>

text \<open>
  The store holds the two tables; a table that has not been created is \<open>None\<close>, a created
  one the list of its rows in insertion order. Neither table declares a key or a
  constraint, so a table takes any row of bindable values.
\<close>

record 'f database =
  asteroids :: "'f pyval list list option"
  close_approach :: "'f pyval list list option"

definition empty_database :: "'f database" where
  "empty_database = \<lparr>asteroids = None, close_approach = None\<rparr>"

text \<open>\<open>CREATE TABLE IF NOT EXISTS\<close>, twice, then commit.\<close>

definition create_tables :: "'f database \<Rightarrow> 'f database" where
  "create_tables db =
     db\<lparr>asteroids := Some (case asteroids db of None \<Rightarrow> [] | Some rows \<Rightarrow> rows),
        close_approach := Some (case close_approach db of None \<Rightarrow> [] | Some rows \<Rightarrow> rows)\<rparr>"

text \<open>
  Binding one parameter of a statement: sqlite3 takes \<open>None\<close>, ints of 64 bits (a bool is
  an int), floats and strs, and refuses lists and dicts.
\<close>

fun bind_param :: "'f pyval \<Rightarrow> error + 'f pyval" where
  "bind_param (PList xs) = Inl BindingError"
| "bind_param (PDict kvs) = Inl BindingError"
| "bind_param (PInt n) =
     (if - (2 ^ 63) \<le> n \<and> n < 2 ^ 63 then Inr (PInt n) else Inl OverflowError)"
| "bind_param v = Inr v"

fun bind_row :: "'f pyval list \<Rightarrow> error + 'f pyval list" where
  "bind_row [] = Inr []"
| "bind_row (v # vs) =
     bindE (bind_param v) (\<lambda>w. bindE (bind_row vs) (\<lambda>ws. Inr (w # ws)))"

text \<open>
  One \<open>for\<close> loop of \<open>insert_data\<close>: each \<open>cursor.execute('INSERT INTO ... VALUES (?, ...)')\<close>
  fails when the table does not exist or a value cannot be bound, and otherwise adds one
  row. Nothing looks at the rows already there.
\<close>

fun insert_rows :: "'f pyval list list option \<Rightarrow> 'f pyval list list \<Rightarrow> error + 'f pyval list list option" where
  "insert_rows table [] = Inr table"
| "insert_rows table (r # rs) =
     (case table of
        None \<Rightarrow> Inl OperationalError
      | Some rows \<Rightarrow>
          (case bind_row r of
             Inl e \<Rightarrow> Inl e
           | Inr r' \<Rightarrow> insert_rows (Some (rows @ [r'])) rs))"

definition asteroid_row :: "'f asteroid_info \<Rightarrow> 'f pyval list" where
  "asteroid_row asteroid =
     [PInt (neo_id asteroid), name asteroid, PFloat (absolute_magnitude_h asteroid),
      PFloat (estimated_diameter_min_km asteroid), PFloat (estimated_diameter_max_km asteroid),
      is_potentially_hazardous_asteroid asteroid]"

definition approach_row :: "'f approach_info \<Rightarrow> 'f pyval list" where
  "approach_row approach =
     [PInt (neo_reference_id approach), close_approach_date approach,
      PFloat (relative_velocity_kmph approach), PFloat (astronomical approach),
      PFloat (miss_distance_km approach), PFloat (miss_distance_lunar approach),
      orbiting_body approach]"

text \<open>
  \<open>insert_data\<close>: the two loops, then the one commit. An exception leaves before the
  commit, so the store is then as it was.
\<close>

definition insert_data ::
  "'f database \<Rightarrow> 'f asteroid_info list \<Rightarrow> 'f approach_info list \<Rightarrow> error + 'f database" where
  "insert_data db asteroid_data' approach_data' =
     bindE (insert_rows (asteroids db) (map asteroid_row asteroid_data')) (\<lambda>t1.
     bindE (insert_rows (close_approach db) (map approach_row approach_data')) (\<lambda>t2.
     Inr (db\<lparr>asteroids := t1, close_approach := t2\<rparr>)))"

definition row_count :: "'f pyval list list option \<Rightarrow> nat" where
  "row_count table = (case table of None \<Rightarrow> 0 | Some rows \<Rightarrow> length rows)"

section \<open>The shape of an API page\<close>

text \<open>
  The data-shape contract of the feed, stated on the page itself: which nested fields a
  record must have and which of them must convert.
\<close>

definition field :: "'f pyval \<Rightarrow> string \<Rightarrow> 'f pyval option" where
  "field v k = (case v of PDict kvs \<Rightarrow> map_of kvs k | _ \<Rightarrow> None)"

fun path :: "'f pyval \<Rightarrow> string list \<Rightarrow> 'f pyval option" where
  "path v [] = Some v"
| "path v (k # ks) = (case field v k of None \<Rightarrow> None | Some w \<Rightarrow> path w ks)"

definition coercible_int :: "'f builtins \<Rightarrow> 'f pyval \<Rightarrow> bool" where
  "coercible_int B v = (\<not> isl (py_int B v))"

definition coercible_float :: "'f builtins \<Rightarrow> 'f pyval \<Rightarrow> bool" where
  "coercible_float B v = (\<not> isl (py_float B v))"

definition has_float :: "'f builtins \<Rightarrow> 'f pyval \<Rightarrow> string list \<Rightarrow> bool" where
  "has_float B v ks = (case path v ks of None \<Rightarrow> False | Some w \<Rightarrow> coercible_float B w)"

definition has_int :: "'f builtins \<Rightarrow> 'f pyval \<Rightarrow> string list \<Rightarrow> bool" where
  "has_int B v ks = (case path v ks of None \<Rightarrow> False | Some w \<Rightarrow> coercible_int B w)"

definition members :: "'f pyval \<Rightarrow> 'f pyval list option" where
  "members v = (case py_iter v of Inl e \<Rightarrow> None | Inr xs \<Rightarrow> Some xs)"

definition valid_approach :: "'f builtins \<Rightarrow> 'f pyval \<Rightarrow> bool" where
  "valid_approach B approach =
     (path approach [''close_approach_date''] \<noteq> None \<and>
      has_float B approach [''relative_velocity'', ''kilometers_per_hour''] \<and>
      has_float B approach [''miss_distance'', ''astronomical''] \<and>
      has_float B approach [''miss_distance'', ''kilometers''] \<and>
      has_float B approach [''miss_distance'', ''lunar''] \<and>
      path approach [''orbiting_body''] \<noteq> None)"

text \<open>The close-approach entries of an object record; none when the field is unusable.\<close>

definition close_approaches :: "'f pyval \<Rightarrow> 'f pyval list" where
  "close_approaches asteroid =
     (case path asteroid [''close_approach_data''] of
        None \<Rightarrow> []
      | Some v \<Rightarrow> (case members v of None \<Rightarrow> [] | Some xs \<Rightarrow> xs))"

definition valid_asteroid :: "'f builtins \<Rightarrow> 'f pyval \<Rightarrow> bool" where
  "valid_asteroid B asteroid =
     (has_int B asteroid [''id''] \<and>
      path asteroid [''name''] \<noteq> None \<and>
      (case path asteroid [''absolute_magnitude_h''] of
         None \<Rightarrow> coercible_float B (PInt 0)
       | Some h \<Rightarrow> coercible_float B h) \<and>
      has_float B asteroid [''estimated_diameter'', ''kilometers'', ''estimated_diameter_min''] \<and>
      has_float B asteroid [''estimated_diameter'', ''kilometers'', ''estimated_diameter_max''] \<and>
      path asteroid [''is_potentially_hazardous_asteroid''] \<noteq> None \<and>
      (case path asteroid [''close_approach_data''] of
         None \<Rightarrow> False
       | Some v \<Rightarrow> members v \<noteq> None) \<and>
      list_all (valid_approach B) (close_approaches asteroid))"

text \<open>The date groups of a page, and the object records under all of them, in page order.\<close>

definition page_dates :: "'f pyval \<Rightarrow> (string \<times> 'f pyval) list" where
  "page_dates neo_data =
     (case path neo_data [''near_earth_objects''] of
        Some (PDict items) \<Rightarrow> items
      | _ \<Rightarrow> [])"

definition date_objects :: "'f pyval \<Rightarrow> 'f pyval list" where
  "date_objects asteroids' = (case members asteroids' of None \<Rightarrow> [] | Some xs \<Rightarrow> xs)"

definition page_objects :: "'f pyval \<Rightarrow> 'f pyval list" where
  "page_objects neo_data = concat (map (\<lambda>item. date_objects (snd item)) (page_dates neo_data))"

definition valid_page :: "'f builtins \<Rightarrow> 'f pyval \<Rightarrow> bool" where
  "valid_page B neo_data =
     ((case path neo_data [''near_earth_objects''] of
         Some (PDict items) \<Rightarrow> True
       | _ \<Rightarrow> False) \<and>
      list_all (\<lambda>item. members (snd item) \<noteq> None) (page_dates neo_data) \<and>
      list_all (valid_asteroid B) (page_objects neo_data))"

text \<open>The rows one valid object record gives: one copy of its own row per close approach.\<close>

definition asteroid_rows :: "'f builtins \<Rightarrow> 'f pyval \<Rightarrow> 'f asteroid_info list" where
  "asteroid_rows B asteroid =
     replicate (length (close_approaches asteroid)) (projr (asteroid_info_of B asteroid))"

definition approach_rows :: "'f builtins \<Rightarrow> 'f pyval \<Rightarrow> 'f approach_info list" where
  "approach_rows B asteroid =
     map (\<lambda>approach. projr (approach_info_of B asteroid approach)) (close_approaches asteroid)"

text \<open>
  The source object of every row of a valid page: each object of the page once per close
  approach, in page order. The i-th row appended for the page comes from the i-th entry.
\<close>

definition record_sources :: "'f pyval \<Rightarrow> 'f pyval list" where
  "record_sources neo_data =
     concat (map (\<lambda>asteroid. replicate (length (close_approaches asteroid)) asteroid)
               (page_objects neo_data))"

text \<open>
  What a record that does not convert in full has appended when the exception is raised:
  nothing when the object's own fields fail (or its close approaches cannot be iterated),
  otherwise its row once per close-approach entry before the first that fails, with the
  rows of these entries.
\<close>

definition converted_approaches :: "'f builtins \<Rightarrow> 'f pyval \<Rightarrow> 'f pyval list" where
  "converted_approaches B asteroid =
     takeWhile (\<lambda>approach. \<not> isl (approach_info_of B asteroid approach)) (close_approaches asteroid)"

definition partial_asteroid_rows :: "'f builtins \<Rightarrow> 'f pyval \<Rightarrow> 'f asteroid_info list" where
  "partial_asteroid_rows B asteroid =
     (case asteroid_info_of B asteroid of
        Inl e \<Rightarrow> []
      | Inr info \<Rightarrow> replicate (length (converted_approaches B asteroid)) info)"

definition partial_approach_rows :: "'f builtins \<Rightarrow> 'f pyval \<Rightarrow> 'f approach_info list" where
  "partial_approach_rows B asteroid =
     (case asteroid_info_of B asteroid of
        Inl e \<Rightarrow> []
      | Inr info \<Rightarrow>
          map (\<lambda>approach. projr (approach_info_of B asteroid approach)) (converted_approaches B asteroid))"

text \<open>
  The rows appended for a list of object records when the first of them that is not valid
  raises: all rows of the valid records before it, then what that record has appended.
\<close>

definition asteroid_rows_at_raise :: "'f builtins \<Rightarrow> 'f pyval list \<Rightarrow> 'f asteroid_info list" where
  "asteroid_rows_at_raise B objects =
     concat (map (asteroid_rows B) (takeWhile (valid_asteroid B) objects)) @
     (case dropWhile (valid_asteroid B) objects of
        [] \<Rightarrow> []
      | asteroid # rest \<Rightarrow> partial_asteroid_rows B asteroid)"

definition approach_rows_at_raise :: "'f builtins \<Rightarrow> 'f pyval list \<Rightarrow> 'f approach_info list" where
  "approach_rows_at_raise B objects =
     concat (map (approach_rows B) (takeWhile (valid_asteroid B) objects)) @
     (case dropWhile (valid_asteroid B) objects of
        [] \<Rightarrow> []
      | asteroid # rest \<Rightarrow> partial_approach_rows B asteroid)"

section \<open>Builtins on plain decimal literals, for running examples\<close>

text \<open>
  An instance of the builtins with the reals for the floats. It reads the literals that
  the feed uses: an optional minus sign, digits, and for a float an optional point and
  more digits. It is meant for these literals only; Python accepts more.
\<close>

fun digits_value :: "string \<Rightarrow> nat \<Rightarrow> nat option" where
  "digits_value [] acc = Some acc"
| "digits_value (c # cs) acc =
     (if 48 \<le> (of_char c :: nat) \<and> (of_char c :: nat) \<le> 57
      then digits_value cs (10 * acc + (of_char c - 48))
      else None)"

definition nat_literal :: "string \<Rightarrow> nat option" where
  "nat_literal s = (if s = [] then None else digits_value s 0)"

definition decimal_int_of_str :: "string \<Rightarrow> error + int" where
  "decimal_int_of_str s =
     (case s of
        [] \<Rightarrow> Inl ValueError
      | c # cs \<Rightarrow>
          if c = CHR ''-'' then
            (case nat_literal cs of None \<Rightarrow> Inl ValueError | Some n \<Rightarrow> Inr (- int n))
          else (case nat_literal s of None \<Rightarrow> Inl ValueError | Some n \<Rightarrow> Inr (int n)))"

definition unsigned_decimal :: "string \<Rightarrow> real option" where
  "unsigned_decimal s =
     (let ip = takeWhile (\<lambda>c. c \<noteq> CHR ''.'') s;
          rest = dropWhile (\<lambda>c. c \<noteq> CHR ''.'') s
      in case nat_literal ip of
           None \<Rightarrow> None
         | Some n \<Rightarrow>
             (case rest of
                [] \<Rightarrow> Some (real n)
              | dot # fp \<Rightarrow>
                  (case digits_value fp 0 of
                     None \<Rightarrow> None
                   | Some m \<Rightarrow> Some (real n + real m / 10 ^ length fp))))"

definition decimal_float_of_str :: "string \<Rightarrow> error + real" where
  "decimal_float_of_str s =
     (case s of
        [] \<Rightarrow> Inl ValueError
      | c # cs \<Rightarrow>
          if c = CHR ''-'' then
            (case unsigned_decimal cs of None \<Rightarrow> Inl ValueError | Some x \<Rightarrow> Inr (- x))
          else (case unsigned_decimal s of None \<Rightarrow> Inl ValueError | Some x \<Rightarrow> Inr x))"

definition decimal_builtins :: "real builtins" where
  "decimal_builtins =
     \<lparr> int_of_str = decimal_int_of_str,
       int_of_float = (\<lambda>x. Inr (if 0 \<le> x then \<lfloor>x\<rfloor> else \<lceil>x\<rceil>)),
       float_of_str = decimal_float_of_str,
       float_of_int = (\<lambda>n. Inr (of_int n)),
       float_is_zero = (\<lambda>x. x = 0) \<rparr>"

text \<open>
  The order of Python's \<open><=\<close> between numbers (an int, a float or a bool), with the reals
  for the floats. Values that are not numbers are not compared here.
\<close>

fun number_value :: "real pyval \<Rightarrow> real option" where
  "number_value (PInt n) = Some (of_int n)"
| "number_value (PFloat x) = Some x"
| "number_value (PBool b) = Some (if b then 1 else 0)"
| "number_value v = None"

definition number_le :: "real pyval \<Rightarrow> real pyval \<Rightarrow> bool" where
  "number_le u v =
     (case number_value u of
        None \<Rightarrow> False
      | Some a \<Rightarrow> (case number_value v of None \<Rightarrow> False | Some b \<Rightarrow> a \<le> b))"

section \<open>Example data\<close>

text \<open>
  A page as the feed sends it for a two-day window: one object, seen on both days. The
  identifier and the figures of an approach come as strings, the diameters as floats.
\<close>

definition example_approach :: "string \<Rightarrow> real pyval" where
  "example_approach d =
     PDict [(''close_approach_date'', PStr d),
            (''relative_velocity'', PDict [(''kilometers_per_hour'', PStr ''45000.5'')]),
            (''miss_distance'', PDict [(''astronomical'', PStr ''0.25''),
                                       (''kilometers'', PStr ''37400000''),
                                       (''lunar'', PStr ''97.25'')]),
            (''orbiting_body'', PStr ''Earth'')]"

definition example_asteroid :: "real pyval" where
  "example_asteroid =
     PDict [(''id'', PStr ''2465633''),
            (''name'', PStr ''465633 (2009 JR5)''),
            (''absolute_magnitude_h'', PFloat 20.5),
            (''estimated_diameter'',
               PDict [(''kilometers'', PDict [(''estimated_diameter_min'', PFloat 0.25),
                                              (''estimated_diameter_max'', PFloat 0.5)])]),
            (''is_potentially_hazardous_asteroid'', PBool True),
            (''close_approach_data'',
               PList [example_approach ''2024-01-01'', example_approach ''2024-01-02''])]"

definition example_page :: "real pyval" where
  "example_page =
     PDict [(''element_count'', PInt 1),
            (''near_earth_objects'',
               PDict [(''2024-01-01'', PList [example_asteroid]), (''2024-01-02'', PList [])])]"

definition example_asteroid_info :: "real asteroid_info" where
  "example_asteroid_info =
     \<lparr> neo_id = 2465633, name = PStr ''465633 (2009 JR5)'', absolute_magnitude_h = 20.5,
       estimated_diameter_min_km = 0.25, estimated_diameter_max_km = 0.5,
       is_potentially_hazardous_asteroid = PBool True \<rparr>"

definition example_approach_info :: "string \<Rightarrow> real approach_info" where
  "example_approach_info d =
     \<lparr> neo_reference_id = 2465633, close_approach_date = PStr d,
       relative_velocity_kmph = 45000.5, astronomical = 0.25, miss_distance_km = 37400000,
       miss_distance_lunar = 97.25, orbiting_body = PStr ''Earth'' \<rparr>"

text \<open>A page with a second record that lacks its \<open>estimated_diameter\<close>.\<close>

definition malformed_asteroid :: "real pyval" where
  "malformed_asteroid =
     PDict [(''id'', PStr ''3542519''),
            (''name'', PStr ''(2010 PK9)''),
            (''absolute_magnitude_h'', PFloat 21.5),
            (''is_potentially_hazardous_asteroid'', PBool False),
            (''close_approach_data'', PList [example_approach ''2024-01-01''])]"

definition malformed_page :: "real pyval" where
  "malformed_page =
     PDict [(''near_earth_objects'',
               PDict [(''2024-01-01'', PList [example_asteroid, malformed_asteroid])])]"

text \<open>
  A record whose second close-approach entry lacks the lunar miss distance, and a page
  that holds this record only.
\<close>

definition broken_approach :: "real pyval" where
  "broken_approach =
     PDict [(''close_approach_date'', PStr ''2024-01-02''),
            (''relative_velocity'', PDict [(''kilometers_per_hour'', PStr ''45000.5'')]),
            (''miss_distance'', PDict [(''astronomical'', PStr ''0.25''),
                                       (''kilometers'', PStr ''37400000'')]),
            (''orbiting_body'', PStr ''Earth'')]"

definition half_malformed_asteroid :: "real pyval" where
  "half_malformed_asteroid =
     PDict [(''id'', PStr ''2465633''),
            (''name'', PStr ''465633 (2009 JR5)''),
            (''absolute_magnitude_h'', PFloat 20.5),
            (''estimated_diameter'',
               PDict [(''kilometers'', PDict [(''estimated_diameter_min'', PFloat 0.25),
                                              (''estimated_diameter_max'', PFloat 0.5)])]),
            (''is_potentially_hazardous_asteroid'', PBool True),
            (''close_approach_data'',
               PList [example_approach ''2024-01-01'', broken_approach])]"

definition half_malformed_page :: "real pyval" where
  "half_malformed_page =
     PDict [(''near_earth_objects'', PDict [(''2024-01-01'', PList [half_malformed_asteroid])])]"

text \<open>
  A record whose diameters come as JSON integers, a page that holds this record only, and
  the two rows the record gives.
\<close>

definition integer_asteroid :: "real pyval" where
  "integer_asteroid =
     PDict [(''id'', PStr ''3542519''),
            (''name'', PStr ''(2010 PK9)''),
            (''absolute_magnitude_h'', PFloat 21.5),
            (''estimated_diameter'',
               PDict [(''kilometers'', PDict [(''estimated_diameter_min'', PInt 1),
                                              (''estimated_diameter_max'', PInt 2)])]),
            (''is_potentially_hazardous_asteroid'', PBool False),
            (''close_approach_data'', PList [example_approach ''2024-01-01''])]"

definition integer_page :: "real pyval" where
  "integer_page =
     PDict [(''near_earth_objects'', PDict [(''2024-01-01'', PList [integer_asteroid])])]"

definition integer_asteroid_info :: "real asteroid_info" where
  "integer_asteroid_info =
     \<lparr> neo_id = 3542519, name = PStr ''(2010 PK9)'', absolute_magnitude_h = 21.5,
       estimated_diameter_min_km = 1, estimated_diameter_max_km = 2,
       is_potentially_hazardous_asteroid = PBool False \<rparr>"

definition integer_approach_info :: "real approach_info" where
  "integer_approach_info =
     \<lparr> neo_reference_id = 3542519, close_approach_date = PStr ''2024-01-01'',
       relative_velocity_kmph = 45000.5, astronomical = 0.25, miss_distance_km = 37400000,
       miss_distance_lunar = 97.25, orbiting_body = PStr ''Earth'' \<rparr>"

text \<open>
  Two worlds: one that answers every request with the example page, and one whose first
  answer is an HTTP 500. The state a run ends in when the example page has been normalized
  once, given the trace of the run.
\<close>

definition example_world :: "nat \<Rightarrow> real http_outcome" where
  "example_world n = Response 200 (Some example_page)"

definition failing_once_world :: "nat \<Rightarrow> real http_outcome" where
  "failing_once_world n = (if n = 0 then Response 500 None else Response 200 (Some example_page))"

definition example_final :: "event list \<Rightarrow> real state" where
  "example_final events =
     \<lparr>asteroid_data = [example_asteroid_info, example_asteroid_info],
      approach_data = [example_approach_info ''2024-01-01'', example_approach_info ''2024-01-02''],
      calls = length (filter (\<lambda>e. case e of Get a b \<Rightarrow> True | Sleep n \<Rightarrow> False) events),
      trace = events\<rparr>"

text \<open>A world that answers with the status 300 (Multiple Choices) and a JSON body.\<close>

definition multiple_choices_world :: "nat \<Rightarrow> real http_outcome" where
  "multiple_choices_world n = Response 300 (Some example_page)"

text \<open>A world in which no request gets through.\<close>

definition silent_world :: "nat \<Rightarrow> real http_outcome" where
  "silent_world n = RequestFailed"

text \<open>The state after the failed first fetch of the second world.\<close>

definition after_failure :: "real state" where
  "after_failure =
     \<lparr>asteroid_data = [], approach_data = [], calls = 1,
      trace = [Get ''2024-01-01'' ''2024-01-07'', Sleep 5]\<rparr>"

section \<open>Notions used in the proofs\<close>

text \<open>The state with further rows appended to the two lists.\<close>

definition appended :: "'f state \<Rightarrow> 'f asteroid_info list \<Rightarrow> 'f approach_info list \<Rightarrow> 'f state" where
  "appended s as ps = s\<lparr>asteroid_data := asteroid_data s @ as, approach_data := approach_data s @ ps\<rparr>"

text \<open>The two lists are paired: the same identifiers at the same positions.\<close>

definition aligned :: "'f state \<Rightarrow> bool" where
  "aligned s = (map neo_id (asteroid_data s) = map neo_reference_id (approach_data s))"

text \<open>The window start after \<open>k\<close> passes, and the number of requests sent by then.\<close>

definition window_count :: "date \<Rightarrow> 'f state \<Rightarrow> bool" where
  "window_count d s = (\<exists>k. d = add_days first_day (7 * k) \<and> calls s = k \<and> k \<le> 105)"

section \<open>Facts about the calendar and the loop body\<close>

lemma days_in_month_le: "days_in_month y m \<le> 31"
  by (simp add: days_in_month_def)

lemma year_next_day: "year d \<le> year (next_day d)"
  by (simp add: next_day_def)

lemma year_add_days: "year d \<le> year (add_days d n)"
proof (induction n arbitrary: d)
  case 0
  show ?case by simp
next
  case (Suc n)
  have "year d \<le> year (next_day d)" by (rule year_next_day)
  also have "\<dots> \<le> year (add_days (next_day d) n)" by (rule Suc.IH)
  finally show ?case by simp
qed

lemma date_measure_next_day:
  assumes "year d \<le> 2025"
  shows "date_measure (next_day d) < date_measure d"
proof -
  have le: "days_in_month (year d) (month d) \<le> 31" by (rule days_in_month_le)
  show ?thesis
  proof (cases "day d < days_in_month (year d) (month d)")
    case True
    with le show ?thesis by (simp add: next_day_def date_measure_def)
  next
    case False
    note nd = False
    show ?thesis
    proof (cases "month d < 12")
      case True
      with nd show ?thesis by (simp add: next_day_def date_measure_def)
    next
      case False
      with nd assms show ?thesis by (simp add: next_day_def date_measure_def)
    qed
  qed
qed

lemma date_measure_add_days:
  "year (add_days d (Suc n)) \<le> 2025 \<Longrightarrow> date_measure (add_days d (Suc n)) < date_measure d"
proof (induction n arbitrary: d)
  case 0
  have "year d \<le> year (next_day d)" by (rule year_next_day)
  with 0 have "year d \<le> 2025" by simp
  then show ?case by (simp add: date_measure_next_day)
next
  case (Suc n)
  have "year d \<le> year (add_days d (Suc (Suc n)))" by (rule year_add_days)
  with Suc.prems have y: "year d \<le> 2025" by simp
  from Suc.prems have "year (add_days (next_day d) (Suc n)) \<le> 2025" by simp
  then have "date_measure (add_days (next_day d) (Suc n)) < date_measure (next_day d)"
    by (rule Suc.IH)
  also have "\<dots> < date_measure d" using y by (rule date_measure_next_day)
  finally show ?case by simp
qed

lemma add_days_add: "add_days (add_days d m) n = add_days d (m + n)"
  by (induction m arbitrary: d) simp_all

lemma collect_body_start:
  "collect_body B world start_date total_records s = Inr (start_date', total_records', s')
     \<Longrightarrow> start_date' = add_days start_date 7"
proof -
  assume b: "collect_body B world start_date total_records s = Inr (start_date', total_records', s')"
  have "add_days (add_days start_date 6) 1 = add_days start_date (6 + 1)"
    by (rule add_days_add)
  then have e: "add_days (add_days start_date 6) 1 = add_days start_date 7"
    by simp
  from b have "start_date' = add_days (add_days start_date 6) 1"
    unfolding collect_body_def Let_def
    by (auto simp del: add_days.simps split: prod.splits if_splits sum.splits)
  with e show ?thesis by simp
qed

section \<open>What the normalizer computes\<close>

lemma bindE_Inr_iff: "bindE r f = Inr y \<longleftrightarrow> (\<exists>x. r = Inr x \<and> f x = Inr y)"
  by (cases r) auto

lemma not_isl_iff: "\<not> isl r \<longleftrightarrow> (\<exists>y. r = Inr y)"
  by (cases r) auto

lemma py_getitem_Inr_iff: "py_getitem v k = Inr w \<longleftrightarrow> field v k = Some w"
  by (cases v) (auto simp: field_def split: option.splits)

lemma py_get_Inr_iff:
  "py_get v k d = Inr w \<longleftrightarrow>
     (\<exists>kvs. v = PDict kvs) \<and> w = (case field v k of None \<Rightarrow> d | Some x \<Rightarrow> x)"
  by (cases v) (auto simp: field_def split: option.splits)

lemma path1: "path v [k] = field v k"
  by (simp split: option.splits)

lemma approach_info_ok:
  "\<not> isl (approach_info_of B asteroid approach) \<longleftrightarrow>
     has_int B asteroid [''id''] \<and> valid_approach B approach"
  unfolding not_isl_iff approach_info_of_def valid_approach_def has_int_def has_float_def
    coercible_int_def coercible_float_def bindE_Inr_iff py_getitem_Inr_iff
  by (auto split: option.splits)

lemma field_dict: "field v k = Some w \<Longrightarrow> \<exists>kvs. v = PDict kvs"
  by (cases v) (auto simp: field_def)

lemma asteroid_info_ok:
  "\<not> isl (asteroid_info_of B asteroid) \<longleftrightarrow>
     has_int B asteroid [''id''] \<and>
      path asteroid [''name''] \<noteq> None \<and>
      (case path asteroid [''absolute_magnitude_h''] of
         None \<Rightarrow> coercible_float B (PInt 0)
       | Some h \<Rightarrow> coercible_float B h) \<and>
      has_float B asteroid [''estimated_diameter'', ''kilometers'', ''estimated_diameter_min''] \<and>
      has_float B asteroid [''estimated_diameter'', ''kilometers'', ''estimated_diameter_max''] \<and>
      path asteroid [''is_potentially_hazardous_asteroid''] \<noteq> None"
  unfolding not_isl_iff asteroid_info_of_def has_int_def has_float_def
    coercible_int_def coercible_float_def bindE_Inr_iff py_getitem_Inr_iff py_get_Inr_iff
  by (auto split: option.splits dest: field_dict)


lemma appended_Nil: "appended s [] [] = s"
  by (simp add: appended_def)

lemma appended_appended: "appended (appended s as ps) as' ps' = appended s (as @ as') (ps @ ps')"
  by (simp add: appended_def)

lemma extract_approaches_iff:
  "extract_approaches B asteroid info approaches s = Inr s' \<longleftrightarrow>
     list_all (\<lambda>approach. \<not> isl (approach_info_of B asteroid approach)) approaches \<and>
     s' = appended s (replicate (length approaches) info)
            (map (\<lambda>approach. projr (approach_info_of B asteroid approach)) approaches)"
proof (induction approaches arbitrary: s)
  case Nil
  show ?case by (auto simp: appended_Nil)
next
  case (Cons approach rest)
  show ?case
  proof (cases "approach_info_of B asteroid approach")
    case (Inl e)
    then show ?thesis by simp
  next
    case (Inr a)
    have "s\<lparr>asteroid_data := asteroid_data s @ [info], approach_data := approach_data s @ [a]\<rparr>
            = appended s [info] [a]"
      by (simp add: appended_def)
    with Inr show ?thesis
      by (simp add: Cons.IH appended_appended)
  qed
qed

lemma close_approaches_iter:
  "bindE (py_getitem asteroid ''close_approach_data'') py_iter = Inr xs \<longleftrightarrow>
     (case path asteroid [''close_approach_data''] of None \<Rightarrow> False | Some v \<Rightarrow> members v \<noteq> None)
     \<and> xs = close_approaches asteroid"
  by (auto simp: bindE_Inr_iff py_getitem_Inr_iff close_approaches_def members_def
           split: option.splits sum.splits)

lemma extract_asteroid_iff:
  "extract_asteroid B asteroid s = Inr s' \<longleftrightarrow>
     valid_asteroid B asteroid \<and>
     s' = appended s (asteroid_rows B asteroid) (approach_rows B asteroid)"
proof (cases "asteroid_info_of B asteroid")
  case (Inl e)
  then have "isl (asteroid_info_of B asteroid)" by simp
  then have "\<not> valid_asteroid B asteroid"
    using asteroid_info_ok [of B asteroid] by (auto simp: valid_asteroid_def)
  with Inl show ?thesis by (simp add: extract_asteroid_def)
next
  case (Inr info)
  then have ok: "\<not> isl (asteroid_info_of B asteroid)" by simp
  show ?thesis
  proof (cases "bindE (py_getitem asteroid ''close_approach_data'') py_iter")
    case (Inl e)
    then have "\<not> valid_asteroid B asteroid"
      using close_approaches_iter [of asteroid "close_approaches asteroid"]
      by (auto simp: valid_asteroid_def)
    with Inl Inr show ?thesis by (simp add: extract_asteroid_def)
  next
    case r: (Inr xs)
    then have xs: "xs = close_approaches asteroid"
      and m: "(case path asteroid [''close_approach_data''] of None \<Rightarrow> False | Some v \<Rightarrow> members v \<noteq> None)"
      by (simp_all add: close_approaches_iter)
    have v: "valid_asteroid B asteroid \<longleftrightarrow>
        list_all (\<lambda>approach. \<not> isl (approach_info_of B asteroid approach)) (close_approaches asteroid)"
      using ok m asteroid_info_ok [of B asteroid]
      by (auto simp: valid_asteroid_def approach_info_ok list_all_iff)
    from Inr r xs show ?thesis
      by (simp add: extract_asteroid_def extract_approaches_iff v asteroid_rows_def approach_rows_def)
  qed
qed

lemma extract_asteroids_iff:
  "extract_asteroids B as s = Inr s' \<longleftrightarrow>
     list_all (valid_asteroid B) as \<and>
     s' = appended s (concat (map (asteroid_rows B) as)) (concat (map (approach_rows B) as))"
proof (induction as arbitrary: s)
  case Nil
  show ?case by (auto simp: appended_Nil)
next
  case (Cons asteroid rest)
  show ?case
  proof (cases "extract_asteroid B asteroid s")
    case (Inl e)
    then have "\<not> valid_asteroid B asteroid"
      using extract_asteroid_iff [of B asteroid s] by auto
    with Inl show ?thesis by simp
  next
    case (Inr s1)
    then have "valid_asteroid B asteroid"
      and "s1 = appended s (asteroid_rows B asteroid) (approach_rows B asteroid)"
      by (simp_all add: extract_asteroid_iff)
    with Inr show ?thesis
      by (simp add: Cons.IH appended_appended)
  qed
qed

lemma extract_dates_iff:
  "extract_dates B items s = Inr s' \<longleftrightarrow>
     list_all (\<lambda>item. members (snd item) \<noteq> None) items \<and>
     list_all (valid_asteroid B) (concat (map (\<lambda>item. date_objects (snd item)) items)) \<and>
     s' = appended s
            (concat (map (asteroid_rows B) (concat (map (\<lambda>item. date_objects (snd item)) items))))
            (concat (map (approach_rows B) (concat (map (\<lambda>item. date_objects (snd item)) items))))"
proof (induction items arbitrary: s)
  case Nil
  show ?case by (auto simp: appended_Nil)
next
  case (Cons item rest)
  obtain date asteroids where item: "item = (date, asteroids)" by (cases item)
  show ?case
  proof (cases "py_iter asteroids")
    case (Inl e)
    with item show ?thesis by (simp add: members_def)
  next
    case (Inr as)
    then have m: "members asteroids = Some as" and d: "date_objects asteroids = as"
      by (simp_all add: members_def date_objects_def)
    show ?thesis
    proof (cases "extract_asteroids B as s")
      case (Inl e)
      then have "\<not> list_all (valid_asteroid B) as"
        using extract_asteroids_iff [of B as s] by auto
      with Inl Inr item d show ?thesis by simp
    next
      case r: (Inr s1)
      then have "list_all (valid_asteroid B) as"
        and "s1 = appended s (concat (map (asteroid_rows B) as)) (concat (map (approach_rows B) as))"
        by (simp_all add: extract_asteroids_iff)
      with r Inr item m d show ?thesis
        by (simp add: Cons.IH appended_appended)
    qed
  qed
qed

lemma page_items_iff:
  "bindE (py_getitem neo_data ''near_earth_objects'') py_items = Inr items \<longleftrightarrow>
     (case path neo_data [''near_earth_objects''] of Some (PDict kvs) \<Rightarrow> True | _ \<Rightarrow> False)
     \<and> items = page_dates neo_data"
  by (auto simp: bindE_Inr_iff py_getitem_Inr_iff page_dates_def
           split: option.splits pyval.splits)

lemma normalizer_spec:
  "extract_asteroid_fields B neo_data s = Inr s' \<longleftrightarrow>
     valid_page B neo_data \<and>
     s' = appended s (concat (map (asteroid_rows B) (page_objects neo_data)))
                     (concat (map (approach_rows B) (page_objects neo_data)))"
proof (cases "bindE (py_getitem neo_data ''near_earth_objects'') py_items")
  case (Inl e)
  then have "\<not> valid_page B neo_data"
    using page_items_iff [of neo_data "page_dates neo_data"] by (auto simp: valid_page_def)
  with Inl show ?thesis by (simp add: extract_asteroid_fields_def)
next
  case (Inr items)
  then have "items = page_dates neo_data"
    and "(case path neo_data [''near_earth_objects''] of Some (PDict kvs) \<Rightarrow> True | _ \<Rightarrow> False)"
    by (simp_all add: page_items_iff)
  with Inr show ?thesis
    by (simp add: extract_asteroid_fields_def extract_dates_iff valid_page_def page_objects_def)
qed


section \<open>The state when the normalizer raises\<close>

lemma extract_approaches_Inl_state:
  "extract_approaches B asteroid info approaches s = Inl (e, s') \<Longrightarrow>
     s' = appended s
            (replicate (length (takeWhile (\<lambda>approach. \<not> isl (approach_info_of B asteroid approach))
                                  approaches)) info)
            (map (\<lambda>approach. projr (approach_info_of B asteroid approach))
               (takeWhile (\<lambda>approach. \<not> isl (approach_info_of B asteroid approach)) approaches))"
proof (induction approaches arbitrary: s)
  case Nil
  then show ?case by simp
next
  case (Cons approach rest)
  show ?case
  proof (cases "approach_info_of B asteroid approach")
    case (Inl e')
    with Cons.prems show ?thesis by (simp add: appended_Nil)
  next
    case (Inr a)
    have eq: "s\<lparr>asteroid_data := asteroid_data s @ [info], approach_data := approach_data s @ [a]\<rparr>
            = appended s [info] [a]"
      by (simp add: appended_def)
    from Cons.prems Inr have "extract_approaches B asteroid info rest (appended s [info] [a]) = Inl (e, s')"
      by (simp add: eq)
    from Cons.IH [OF this] Inr show ?thesis
      by (simp add: appended_appended)
  qed
qed

lemma extract_asteroid_Inl_state:
  assumes "extract_asteroid B asteroid s = Inl (e, s')"
  shows "s' = appended s (partial_asteroid_rows B asteroid) (partial_approach_rows B asteroid)"
proof (cases "asteroid_info_of B asteroid")
  case (Inl e')
  with assms show ?thesis
    by (simp add: extract_asteroid_def partial_asteroid_rows_def partial_approach_rows_def appended_Nil)
next
  case (Inr info)
  show ?thesis
  proof (cases "bindE (py_getitem asteroid ''close_approach_data'') py_iter")
    case (Inl e')
    have "close_approaches asteroid = []"
    proof (cases "path asteroid [''close_approach_data'']")
      case None
      then show ?thesis by (simp add: close_approaches_def)
    next
      case (Some v)
      with Inl have "members v = None"
        by (auto simp: py_getitem_Inr_iff [symmetric] members_def split: sum.splits option.splits)
      with Some show ?thesis by (simp add: close_approaches_def)
    qed
    with assms Inl Inr show ?thesis
      by (simp add: extract_asteroid_def partial_asteroid_rows_def partial_approach_rows_def
            converted_approaches_def appended_Nil)
  next
    case r: (Inr xs)
    then have xs: "xs = close_approaches asteroid"
      by (simp add: close_approaches_iter)
    from assms Inr r xs
    have "extract_approaches B asteroid info (close_approaches asteroid) s = Inl (e, s')"
      by (simp add: extract_asteroid_def)
    from extract_approaches_Inl_state [OF this] Inr show ?thesis
      by (simp add: partial_asteroid_rows_def partial_approach_rows_def converted_approaches_def)
  qed
qed

lemma extract_asteroids_Inl_state:
  "extract_asteroids B objects s = Inl (e, s') \<Longrightarrow>
     s' = appended s (asteroid_rows_at_raise B objects) (approach_rows_at_raise B objects)"
proof (induction objects arbitrary: s)
  case Nil
  then show ?case by simp
next
  case (Cons asteroid rest)
  show ?case
  proof (cases "extract_asteroid B asteroid s")
    case (Inl p)
    then have nv: "\<not> valid_asteroid B asteroid"
      using extract_asteroid_iff [of B asteroid s] by auto
    from Inl Cons.prems have "extract_asteroid B asteroid s = Inl (e, s')" by simp
    from extract_asteroid_Inl_state [OF this] nv show ?thesis
      by (simp add: asteroid_rows_at_raise_def approach_rows_at_raise_def)
  next
    case (Inr s1)
    then have v: "valid_asteroid B asteroid"
      and s1: "s1 = appended s (asteroid_rows B asteroid) (approach_rows B asteroid)"
      by (simp_all add: extract_asteroid_iff)
    from Inr Cons.prems have "extract_asteroids B rest s1 = Inl (e, s')" by simp
    from Cons.IH [OF this] v s1 show ?thesis
      by (simp add: asteroid_rows_at_raise_def approach_rows_at_raise_def appended_appended)
  qed
qed

lemma extract_asteroids_append:
  "extract_asteroids B (xs @ ys) s =
     (case extract_asteroids B xs s of Inl e \<Rightarrow> Inl e | Inr s' \<Rightarrow> extract_asteroids B ys s')"
  by (induction xs arbitrary: s) (auto split: sum.splits)

lemma extract_dates_flat:
  "list_all (\<lambda>item. members (snd item) \<noteq> None) items \<Longrightarrow>
     extract_dates B items s =
       extract_asteroids B (concat (map (\<lambda>item. date_objects (snd item)) items)) s"
proof (induction items arbitrary: s)
  case Nil
  show ?case by simp
next
  case (Cons item rest)
  obtain date asteroids where item: "item = (date, asteroids)" by (cases item)
  from Cons.prems item obtain as where m: "members asteroids = Some as" by auto
  then have i: "py_iter asteroids = Inr as" and d: "date_objects asteroids = as"
    by (auto simp: members_def date_objects_def split: sum.splits)
  from Cons.prems have "list_all (\<lambda>item. members (snd item) \<noteq> None) rest" by simp
  then have "extract_dates B rest t =
       extract_asteroids B (concat (map (\<lambda>item. date_objects (snd item)) rest)) t" for t
    by (rule Cons.IH)
  with item i d show ?case
    by (simp add: extract_asteroids_append split: sum.splits)
qed

lemma extract_asteroid_fields_flat:
  assumes "asteroid \<in> set (page_objects neo_data)"
    and "list_all (\<lambda>item. members (snd item) \<noteq> None) (page_dates neo_data)"
  shows "extract_asteroid_fields B neo_data s = extract_asteroids B (page_objects neo_data) s"
proof -
  from assms(1) have "page_dates neo_data \<noteq> []"
    by (auto simp: page_objects_def)
  then have "(case path neo_data [''near_earth_objects''] of Some (PDict kvs) \<Rightarrow> True | _ \<Rightarrow> False)"
    by (auto simp: page_dates_def split: option.splits pyval.splits)
  then have "bindE (py_getitem neo_data ''near_earth_objects'') py_items = Inr (page_dates neo_data)"
    by (simp add: page_items_iff)
  with assms(2) show ?thesis
    by (simp add: extract_asteroid_fields_def extract_dates_flat page_objects_def)
qed

section \<open>The source object of every row\<close>

lemma concat_replicate_map:
  "concat (map (\<lambda>x. replicate (n x) (f x)) xs) = map f (concat (map (\<lambda>x. replicate (n x) x) xs))"
  by (induction xs) simp_all

lemma asteroid_rows_sources:
  "concat (map (asteroid_rows B) (page_objects neo_data)) =
     map (\<lambda>asteroid. projr (asteroid_info_of B asteroid)) (record_sources neo_data)"
  unfolding record_sources_def asteroid_rows_def by (rule concat_replicate_map)

lemma record_sources_subset: "set (record_sources neo_data) \<subseteq> set (page_objects neo_data)"
  by (auto simp: record_sources_def)


section \<open>The example page, evaluated\<close>

lemma ex_int: "decimal_int_of_str ''2465633'' = Inr 2465633"
  by (simp add: decimal_int_of_str_def nat_literal_def)

lemma ex_f1: "decimal_float_of_str ''45000.5'' = Inr 45000.5"
  by (simp add: decimal_float_of_str_def unsigned_decimal_def nat_literal_def)

lemma ex_f2: "decimal_float_of_str ''0.25'' = Inr 0.25"
  by (simp add: decimal_float_of_str_def unsigned_decimal_def nat_literal_def)

lemma ex_f3: "decimal_float_of_str ''37400000'' = Inr 37400000"
  by (simp add: decimal_float_of_str_def unsigned_decimal_def nat_literal_def)

lemma ex_f4: "decimal_float_of_str ''97.25'' = Inr 97.25"
  by (simp add: decimal_float_of_str_def unsigned_decimal_def nat_literal_def)

lemmas ex_lits = ex_int ex_f1 ex_f2 ex_f3 ex_f4

lemma example_asteroid_info_of:
  "asteroid_info_of decimal_builtins example_asteroid = Inr example_asteroid_info"
  by (simp add: asteroid_info_of_def example_asteroid_def example_asteroid_info_def
        decimal_builtins_def ex_lits)

lemma example_approach_info_of:
  "approach_info_of decimal_builtins example_asteroid (example_approach d) = Inr (example_approach_info d)"
  by (simp add: approach_info_of_def example_asteroid_def example_approach_def
        example_approach_info_def decimal_builtins_def ex_lits)

lemma example_close_approaches:
  "bindE (py_getitem example_asteroid ''close_approach_data'') py_iter =
     Inr [example_approach ''2024-01-01'', example_approach ''2024-01-02'']"
  by (simp add: example_asteroid_def)

lemma example_extract_asteroid:
  "extract_asteroid decimal_builtins example_asteroid s =
     Inr (appended s [example_asteroid_info, example_asteroid_info]
            [example_approach_info ''2024-01-01'', example_approach_info ''2024-01-02''])"
  by (simp add: extract_asteroid_def example_asteroid_info_of example_close_approaches
        example_approach_info_of appended_def)

lemma example_extract:
  "extract_asteroid_fields decimal_builtins example_page s =
     Inr (appended s [example_asteroid_info, example_asteroid_info]
            [example_approach_info ''2024-01-01'', example_approach_info ''2024-01-02''])"
  by (simp add: extract_asteroid_fields_def example_page_def example_extract_asteroid)

lemma example_page_objects: "page_objects example_page = [example_asteroid]"
  by (simp add: page_objects_def page_dates_def example_page_def field_def date_objects_def members_def)

lemma example_close_approaches_eq:
  "close_approaches example_asteroid = [example_approach ''2024-01-01'', example_approach ''2024-01-02'']"
  by (simp add: close_approaches_def example_asteroid_def field_def members_def)

lemma example_valid: "valid_page decimal_builtins example_page"
  using example_extract [of undefined] unfolding normalizer_spec by simp

section \<open>The other example pages, evaluated\<close>

lemma example_asteroid_valid: "valid_asteroid decimal_builtins example_asteroid"
  using example_valid by (simp add: valid_page_def example_page_objects)

lemma example_rows:
  "asteroid_rows decimal_builtins example_asteroid = [example_asteroid_info, example_asteroid_info]"
  "approach_rows decimal_builtins example_asteroid =
     [example_approach_info ''2024-01-01'', example_approach_info ''2024-01-02'']"
  by (simp_all add: asteroid_rows_def approach_rows_def example_close_approaches_eq
        example_asteroid_info_of example_approach_info_of numeral_2_eq_2)

lemma malformed_page_objects: "page_objects malformed_page = [example_asteroid, malformed_asteroid]"
  by (simp add: page_objects_def page_dates_def malformed_page_def field_def date_objects_def
        members_def)

lemma malformed_page_dates:
  "list_all (\<lambda>item. members (snd item) \<noteq> None) (page_dates malformed_page)"
  by (simp add: page_dates_def malformed_page_def field_def members_def)

lemma malformed_asteroid_invalid: "\<not> valid_asteroid decimal_builtins malformed_asteroid"
  by (simp add: valid_asteroid_def has_float_def malformed_asteroid_def field_def)

lemma malformed_asteroid_info_of: "asteroid_info_of decimal_builtins malformed_asteroid = Inl KeyError"
  by (simp add: asteroid_info_of_def malformed_asteroid_def decimal_builtins_def
        decimal_int_of_str_def nat_literal_def)

lemma malformed_rows_at_raise:
  "asteroid_rows_at_raise decimal_builtins (page_objects malformed_page) =
     [example_asteroid_info, example_asteroid_info]"
  "approach_rows_at_raise decimal_builtins (page_objects malformed_page) =
     [example_approach_info ''2024-01-01'', example_approach_info ''2024-01-02'']"
  by (simp_all add: asteroid_rows_at_raise_def approach_rows_at_raise_def malformed_page_objects
        example_asteroid_valid malformed_asteroid_invalid example_rows partial_asteroid_rows_def
        partial_approach_rows_def malformed_asteroid_info_of)

lemma half_malformed_info_of:
  "asteroid_info_of decimal_builtins half_malformed_asteroid = Inr example_asteroid_info"
  by (simp add: asteroid_info_of_def half_malformed_asteroid_def example_asteroid_info_def
        decimal_builtins_def ex_lits)

lemma half_malformed_first:
  "approach_info_of decimal_builtins half_malformed_asteroid (example_approach d) =
     Inr (example_approach_info d)"
  by (simp add: approach_info_of_def half_malformed_asteroid_def example_approach_def
        example_approach_info_def decimal_builtins_def ex_lits)

lemma half_malformed_second:
  "approach_info_of decimal_builtins half_malformed_asteroid broken_approach = Inl KeyError"
  by (simp add: approach_info_of_def half_malformed_asteroid_def broken_approach_def
        decimal_builtins_def ex_lits)

lemma half_malformed_page_objects: "page_objects half_malformed_page = [half_malformed_asteroid]"
  by (simp add: page_objects_def page_dates_def half_malformed_page_def field_def date_objects_def
        members_def)

lemma half_malformed_invalid: "\<not> valid_asteroid decimal_builtins half_malformed_asteroid"
  by (simp add: valid_asteroid_def valid_approach_def has_float_def half_malformed_asteroid_def
        broken_approach_def field_def close_approaches_def members_def)

lemma half_malformed_close_approaches:
  "bindE (py_getitem half_malformed_asteroid ''close_approach_data'') py_iter =
     Inr [example_approach ''2024-01-01'', broken_approach]"
  by (simp add: half_malformed_asteroid_def)

lemma half_malformed_extract_asteroid:
  "extract_asteroid decimal_builtins half_malformed_asteroid s =
     Inl (KeyError, appended s [example_asteroid_info] [example_approach_info ''2024-01-01''])"
  by (simp add: extract_asteroid_def half_malformed_info_of half_malformed_close_approaches
        half_malformed_first half_malformed_second appended_def)

lemma half_malformed_extract:
  "extract_asteroid_fields decimal_builtins half_malformed_page s =
     Inl (KeyError, appended s [example_asteroid_info] [example_approach_info ''2024-01-01''])"
  by (simp add: extract_asteroid_fields_def half_malformed_page_def half_malformed_extract_asteroid)

lemma ex_int2: "decimal_int_of_str ''3542519'' = Inr 3542519"
  by (simp add: decimal_int_of_str_def nat_literal_def)

lemma integer_asteroid_info_of:
  "asteroid_info_of decimal_builtins integer_asteroid = Inr integer_asteroid_info"
  by (simp add: asteroid_info_of_def integer_asteroid_def integer_asteroid_info_def
        decimal_builtins_def ex_int2)

lemma integer_approach_info_of:
  "approach_info_of decimal_builtins integer_asteroid (example_approach ''2024-01-01'') =
     Inr integer_approach_info"
  by (simp add: approach_info_of_def integer_asteroid_def example_approach_def
        integer_approach_info_def decimal_builtins_def ex_lits ex_int2)

lemma integer_close_approaches:
  "bindE (py_getitem integer_asteroid ''close_approach_data'') py_iter =
     Inr [example_approach ''2024-01-01'']"
  by (simp add: integer_asteroid_def)

lemma integer_extract_asteroid:
  "extract_asteroid decimal_builtins integer_asteroid s =
     Inr (appended s [integer_asteroid_info] [integer_approach_info])"
  by (simp add: extract_asteroid_def integer_asteroid_info_of integer_close_approaches
        integer_approach_info_of appended_def)

lemma integer_extract:
  "extract_asteroid_fields decimal_builtins integer_page s =
     Inr (appended s [integer_asteroid_info] [integer_approach_info])"
  by (simp add: extract_asteroid_fields_def integer_page_def integer_extract_asteroid)

lemma integer_record_sources: "record_sources integer_page = [integer_asteroid]"
  by (simp add: record_sources_def page_objects_def page_dates_def integer_page_def field_def
        date_objects_def members_def)
     (simp add: close_approaches_def integer_asteroid_def field_def members_def)

lemma integer_diameters:
  "path integer_asteroid [''estimated_diameter'', ''kilometers'', ''estimated_diameter_min'']
     = Some (PInt 1)"
  "path integer_asteroid [''estimated_diameter'', ''kilometers'', ''estimated_diameter_max'']
     = Some (PInt 2)"
  by (simp_all add: integer_asteroid_def field_def)

lemma decimal_float_monotone:
  "number_le u v \<Longrightarrow> py_float decimal_builtins u = Inr x \<Longrightarrow>
     py_float decimal_builtins v = Inr y \<Longrightarrow> x \<le> y"
  by (cases u; cases v) (auto simp: number_le_def decimal_builtins_def split: if_splits)



section \<open>Identifiers and diameters of the rows\<close>

lemma Inr_projr: "\<not> isl r \<Longrightarrow> r = Inr (projr r)"
  by (cases r) auto

lemma asteroid_info_id:
  "asteroid_info_of B asteroid = Inr info \<Longrightarrow>
     bindE (py_getitem asteroid ''id'') (py_int B) = Inr (neo_id info)"
  unfolding asteroid_info_of_def bindE_Inr_iff by auto

lemma approach_info_id:
  "approach_info_of B asteroid approach = Inr a \<Longrightarrow>
     bindE (py_getitem asteroid ''id'') (py_int B) = Inr (neo_reference_id a)"
  unfolding approach_info_of_def bindE_Inr_iff by auto

lemma asteroid_info_diameters:
  "asteroid_info_of B asteroid = Inr info \<Longrightarrow>
     \<exists>lo hi.
       path asteroid [''estimated_diameter'', ''kilometers'', ''estimated_diameter_min''] = Some lo \<and>
       path asteroid [''estimated_diameter'', ''kilometers'', ''estimated_diameter_max''] = Some hi \<and>
       py_float B lo = Inr (estimated_diameter_min_km info) \<and>
       py_float B hi = Inr (estimated_diameter_max_km info)"
  unfolding asteroid_info_of_def bindE_Inr_iff py_getitem_Inr_iff by auto

lemma valid_asteroid_info:
  "valid_asteroid B asteroid \<Longrightarrow>
     asteroid_info_of B asteroid = Inr (projr (asteroid_info_of B asteroid))"
  using asteroid_info_ok [of B asteroid] by (intro Inr_projr) (simp add: valid_asteroid_def)

lemma valid_approach_info:
  "valid_asteroid B asteroid \<Longrightarrow> approach \<in> set (close_approaches asteroid) \<Longrightarrow>
     approach_info_of B asteroid approach = Inr (projr (approach_info_of B asteroid approach))"
  using approach_info_ok [of B asteroid approach]
  by (intro Inr_projr) (simp add: valid_asteroid_def list_all_iff)

lemma approach_rows_id:
  assumes "valid_asteroid B asteroid" and "a \<in> set (approach_rows B asteroid)"
  shows "neo_reference_id a = neo_id (projr (asteroid_info_of B asteroid))"
proof -
  from assms(2) obtain approach where ap: "approach \<in> set (close_approaches asteroid)"
    and a: "a = projr (approach_info_of B asteroid approach)"
    by (auto simp: approach_rows_def)
  from assms(1) ap have "approach_info_of B asteroid approach = Inr a"
    unfolding a by (rule valid_approach_info)
  then have "bindE (py_getitem asteroid ''id'') (py_int B) = Inr (neo_reference_id a)"
    by (rule approach_info_id)
  moreover have "bindE (py_getitem asteroid ''id'') (py_int B)
      = Inr (neo_id (projr (asteroid_info_of B asteroid)))"
    using assms(1) by (intro asteroid_info_id valid_asteroid_info)
  ultimately show ?thesis by simp
qed

lemma rows_aligned:
  assumes "valid_asteroid B asteroid"
  shows "map neo_reference_id (approach_rows B asteroid) = map neo_id (asteroid_rows B asteroid)"
proof -
  have "map neo_reference_id (approach_rows B asteroid)
      = map (\<lambda>a. neo_id (projr (asteroid_info_of B asteroid))) (approach_rows B asteroid)"
    using assms by (intro map_cong refl approach_rows_id)
  also have "\<dots> = replicate (length (approach_rows B asteroid)) (neo_id (projr (asteroid_info_of B asteroid)))"
    by (simp add: map_replicate_const)
  also have "\<dots> = map neo_id (asteroid_rows B asteroid)"
    by (simp add: asteroid_rows_def approach_rows_def)
  finally show ?thesis .
qed

section \<open>Claims about the normalizer\<close>

text \<open>
  Claim C4. For every valid API page (all required nested fields present and coercible),
  the normalizer returns, and the number of approach-event records it has appended equals
  the sum, over all objects under all dates of the page, of the length of the object's
  close-approach list.
\<close>

theorem approach_count_is_sum:
  assumes "valid_page B neo_data"
  shows "\<exists>s'. extract_asteroid_fields B neo_data s = Inr s' \<and>
           length (approach_data s') =
             length (approach_data s) +
             sum_list (map (\<lambda>asteroid. length (close_approaches asteroid)) (page_objects neo_data))"
proof -
  let ?s' = "appended s (concat (map (asteroid_rows B) (page_objects neo_data)))
                        (concat (map (approach_rows B) (page_objects neo_data)))"
  from assms have "extract_asteroid_fields B neo_data s = Inr ?s'"
    by (simp add: normalizer_spec)
  moreover have "length (approach_data ?s') =
      length (approach_data s) +
      sum_list (map (\<lambda>asteroid. length (close_approaches asteroid)) (page_objects neo_data))"
    by (simp add: appended_def length_concat comp_def approach_rows_def)
  ultimately show ?thesis by blast
qed

theorem approach_count_is_sum_witness:
  "valid_page decimal_builtins example_page \<and>
   (\<exists>s'. extract_asteroid_fields decimal_builtins example_page new_extractor = Inr s' \<and>
          length (approach_data s') = 2)"
  using approach_count_is_sum [OF example_valid, of new_extractor] example_valid
  by (simp add: example_page_objects example_close_approaches_eq new_extractor_def numeral_2_eq_2)

text \<open>
  Claim C1, as stated, fails: on the example page, which holds exactly one object record
  with exactly two close-approach entries, the normalizer appends two object records, not
  one. Both appends are in the body of the loop over the close approaches.
\<close>

theorem one_object_two_approaches_counterexample:
  "page_objects example_page = [example_asteroid] \<and>
   length (close_approaches example_asteroid) = 2 \<and>
   \<not> isl (extract_asteroid_fields decimal_builtins example_page new_extractor) \<and>
   length (asteroid_data (projr (extract_asteroid_fields decimal_builtins example_page new_extractor))) = 2"
  by (simp add: example_page_objects example_close_approaches_eq example_extract appended_def
        new_extractor_def)

text \<open>
  Claim C1, amended. For every valid API page containing exactly one object record that
  has exactly two close-approach entries, the normalizer appends exactly two object
  records, both the record of that object, and exactly two approach-event records, and
  both approach-event records carry that object's identifier as their reference
  identifier.
\<close>

theorem one_object_two_approaches:
  assumes "valid_page B neo_data"
    and "page_objects neo_data = [asteroid]"
    and "length (close_approaches asteroid) = 2"
  shows "\<exists>s' info a1 a2.
           extract_asteroid_fields B neo_data s = Inr s' \<and>
           asteroid_data s' = asteroid_data s @ [info, info] \<and>
           approach_data s' = approach_data s @ [a1, a2] \<and>
           bindE (py_getitem asteroid ''id'') (py_int B) = Inr (neo_id info) \<and>
           neo_reference_id a1 = neo_id info \<and>
           neo_reference_id a2 = neo_id info"
proof -
  let ?info = "projr (asteroid_info_of B asteroid)"
  from assms(1,2) have v: "valid_asteroid B asteroid"
    by (simp add: valid_page_def)
  from assms(3) obtain x y where xy: "close_approaches asteroid = [x, y]"
    by (auto simp: length_Suc_conv numeral_2_eq_2)
  let ?a1 = "projr (approach_info_of B asteroid x)"
  let ?a2 = "projr (approach_info_of B asteroid y)"
  have rows: "approach_rows B asteroid = [?a1, ?a2]" "asteroid_rows B asteroid = [?info, ?info]"
    by (simp_all add: approach_rows_def asteroid_rows_def xy)
  from assms(1,2) have "extract_asteroid_fields B neo_data s
      = Inr (appended s [?info, ?info] [?a1, ?a2])"
    by (simp add: normalizer_spec rows)
  moreover have "bindE (py_getitem asteroid ''id'') (py_int B) = Inr (neo_id ?info)"
    using v by (intro asteroid_info_id valid_asteroid_info)
  moreover have "neo_reference_id ?a1 = neo_id ?info" "neo_reference_id ?a2 = neo_id ?info"
    using v by (intro approach_rows_id; simp add: rows)+
  ultimately show ?thesis
    by (intro exI [of _ "appended s [?info, ?info] [?a1, ?a2]"] exI [of _ ?info]
          exI [of _ ?a1] exI [of _ ?a2]) (simp add: appended_def)
qed

theorem one_object_two_approaches_witness:
  "valid_page decimal_builtins example_page \<and>
   page_objects example_page = [example_asteroid] \<and>
   length (close_approaches example_asteroid) = 2 \<and>
   (\<exists>s' info a1 a2.
      extract_asteroid_fields decimal_builtins example_page new_extractor = Inr s' \<and>
      asteroid_data s' = [info, info] \<and>
      approach_data s' = [a1, a2] \<and>
      neo_id info = 2465633 \<and>
      neo_reference_id a1 = neo_id info \<and>
      neo_reference_id a2 = neo_id info)"
proof -
  have l: "length (close_approaches example_asteroid) = 2"
    by (simp add: example_close_approaches_eq)
  have i: "bindE (py_getitem example_asteroid ''id'') (py_int decimal_builtins) = Inr 2465633"
    by (simp add: example_asteroid_def decimal_builtins_def ex_int)
  show ?thesis
    using one_object_two_approaches [OF example_valid example_page_objects l, of new_extractor]
      example_valid example_page_objects l
    by (simp add: i new_extractor_def)
qed


lemma example_diameters:
  "path example_asteroid [''estimated_diameter'', ''kilometers'', ''estimated_diameter_min'']
     = Some (PFloat 0.25)"
  "path example_asteroid [''estimated_diameter'', ''kilometers'', ''estimated_diameter_max'']
     = Some (PFloat 0.5)"
  by (simp_all add: example_asteroid_def field_def)

text \<open>
  Claim C9. Every object record the normalizer produces is the record of its own source
  object: the i-th record appended for a page comes from the i-th entry of
  \<open>record_sources\<close> (each object of the page once per close approach, in page order), its
  identifier is the converted \<open>id\<close> of that object, and its \<open>estimated_diameter_min_km\<close> and
  \<open>estimated_diameter_max_km\<close> are \<open>float(...)\<close> of that object's own two diameter fields,
  which is the upstream value itself when that is a float. Nothing is reordered or
  clamped: between upstream floats any relation \<open>le\<close> carries over to the produced values,
  and for upstream values of any type so does every order that \<open>float\<close> respects.
\<close>

theorem diameters_pass_through:
  assumes "extract_asteroid_fields B neo_data s = Inr s'"
  shows "\<exists>new. asteroid_data s' = asteroid_data s @ new \<and>
           length new = length (record_sources neo_data) \<and>
           (\<forall>i < length new. \<exists>lo hi.
              asteroid_info_of B (record_sources neo_data ! i) = Inr (new ! i) \<and>
              bindE (py_getitem (record_sources neo_data ! i) ''id'') (py_int B)
                = Inr (neo_id (new ! i)) \<and>
              path (record_sources neo_data ! i)
                [''estimated_diameter'', ''kilometers'', ''estimated_diameter_min''] = Some lo \<and>
              path (record_sources neo_data ! i)
                [''estimated_diameter'', ''kilometers'', ''estimated_diameter_max''] = Some hi \<and>
              py_float B lo = Inr (estimated_diameter_min_km (new ! i)) \<and>
              py_float B hi = Inr (estimated_diameter_max_km (new ! i)) \<and>
              (\<forall>x. lo = PFloat x \<longrightarrow> estimated_diameter_min_km (new ! i) = x) \<and>
              (\<forall>y. hi = PFloat y \<longrightarrow> estimated_diameter_max_km (new ! i) = y) \<and>
              (\<forall>x y. lo = PFloat x \<and> hi = PFloat y \<and> le x y \<longrightarrow>
                 le (estimated_diameter_min_km (new ! i)) (estimated_diameter_max_km (new ! i))) \<and>
              ((\<forall>u v x y. upstream_le u v \<and> py_float B u = Inr x \<and> py_float B v = Inr y
                   \<longrightarrow> le x y) \<and> upstream_le lo hi \<longrightarrow>
                 le (estimated_diameter_min_km (new ! i)) (estimated_diameter_max_km (new ! i))))"
proof -
  let ?src = "record_sources neo_data"
  let ?new = "map (\<lambda>asteroid. projr (asteroid_info_of B asteroid)) ?src"
  from assms have v: "valid_page B neo_data"
    and s': "s' = appended s (concat (map (asteroid_rows B) (page_objects neo_data)))
                    (concat (map (approach_rows B) (page_objects neo_data)))"
    by (simp_all add: normalizer_spec)
  from s' have a: "asteroid_data s' = asteroid_data s @ ?new"
    by (simp add: appended_def asteroid_rows_sources)
  have "\<exists>lo hi.
          asteroid_info_of B (?src ! i) = Inr (?new ! i) \<and>
          bindE (py_getitem (?src ! i) ''id'') (py_int B) = Inr (neo_id (?new ! i)) \<and>
          path (?src ! i) [''estimated_diameter'', ''kilometers'', ''estimated_diameter_min'']
            = Some lo \<and>
          path (?src ! i) [''estimated_diameter'', ''kilometers'', ''estimated_diameter_max'']
            = Some hi \<and>
          py_float B lo = Inr (estimated_diameter_min_km (?new ! i)) \<and>
          py_float B hi = Inr (estimated_diameter_max_km (?new ! i)) \<and>
          (\<forall>x. lo = PFloat x \<longrightarrow> estimated_diameter_min_km (?new ! i) = x) \<and>
          (\<forall>y. hi = PFloat y \<longrightarrow> estimated_diameter_max_km (?new ! i) = y) \<and>
          (\<forall>x y. lo = PFloat x \<and> hi = PFloat y \<and> le x y \<longrightarrow>
             le (estimated_diameter_min_km (?new ! i)) (estimated_diameter_max_km (?new ! i))) \<and>
          ((\<forall>u v x y. upstream_le u v \<and> py_float B u = Inr x \<and> py_float B v = Inr y
               \<longrightarrow> le x y) \<and> upstream_le lo hi \<longrightarrow>
             le (estimated_diameter_min_km (?new ! i)) (estimated_diameter_max_km (?new ! i)))"
    if i: "i < length ?new" for i
  proof -
    let ?r = "projr (asteroid_info_of B (?src ! i))"
    from i have n: "?new ! i = ?r" by simp
    from i have "?src ! i \<in> set (page_objects neo_data)"
      using record_sources_subset [of neo_data] by (auto simp: subset_iff)
    with v have "valid_asteroid B (?src ! i)"
      by (simp add: valid_page_def list_all_iff)
    then have info: "asteroid_info_of B (?src ! i) = Inr ?r"
      by (rule valid_asteroid_info)
    then have ident: "bindE (py_getitem (?src ! i) ''id'') (py_int B) = Inr (neo_id ?r)"
      by (rule asteroid_info_id)
    from info obtain lo hi where
      p: "path (?src ! i) [''estimated_diameter'', ''kilometers'', ''estimated_diameter_min''] = Some lo"
         "path (?src ! i) [''estimated_diameter'', ''kilometers'', ''estimated_diameter_max''] = Some hi"
      and f: "py_float B lo = Inr (estimated_diameter_min_km ?r)"
             "py_float B hi = Inr (estimated_diameter_max_km ?r)"
      using asteroid_info_diameters by blast
    from f have fl: "\<forall>x. lo = PFloat x \<longrightarrow> estimated_diameter_min_km ?r = x"
      "\<forall>y. hi = PFloat y \<longrightarrow> estimated_diameter_max_km ?r = y"
      "\<forall>x y. lo = PFloat x \<and> hi = PFloat y \<and> le x y \<longrightarrow>
             le (estimated_diameter_min_km ?r) (estimated_diameter_max_km ?r)"
      by auto
    from f have mono: "(\<forall>u v x y. upstream_le u v \<and> py_float B u = Inr x \<and> py_float B v = Inr y
               \<longrightarrow> le x y) \<and> upstream_le lo hi \<longrightarrow>
             le (estimated_diameter_min_km ?r) (estimated_diameter_max_km ?r)"
      by blast
    from info ident p f fl mono show ?thesis
      unfolding n by blast
  qed
  with a show ?thesis
    by (intro exI [of _ ?new]) simp
qed

theorem diameters_pass_through_witness:
  "extract_asteroid_fields decimal_builtins integer_page new_extractor =
     Inr (appended new_extractor [integer_asteroid_info] [integer_approach_info]) \<and>
   record_sources integer_page = [integer_asteroid] \<and>
   path integer_asteroid [''estimated_diameter'', ''kilometers'', ''estimated_diameter_min'']
     = Some (PInt 1) \<and>
   path integer_asteroid [''estimated_diameter'', ''kilometers'', ''estimated_diameter_max'']
     = Some (PInt 2) \<and>
   number_le (PInt 1) (PInt 2) \<and>
   neo_id integer_asteroid_info = 3542519 \<and>
   estimated_diameter_min_km integer_asteroid_info = 1 \<and>
   estimated_diameter_max_km integer_asteroid_info = 2 \<and>
   estimated_diameter_min_km integer_asteroid_info \<le> estimated_diameter_max_km integer_asteroid_info"
proof -
  have mono: "\<forall>u v x y. number_le u v \<and> py_float decimal_builtins u = Inr x \<and>
                py_float decimal_builtins v = Inr y \<longrightarrow> x \<le> y"
    using decimal_float_monotone by blast
  have le: "number_le (PInt 1) (PInt 2)"
    by (simp add: number_le_def)
  from diameters_pass_through [OF integer_extract, of new_extractor "(\<le>)" number_le]
  obtain new where a: "asteroid_data (appended new_extractor [integer_asteroid_info]
                         [integer_approach_info]) = asteroid_data new_extractor @ new"
    and r: "\<forall>i < length new. \<exists>lo hi.
              asteroid_info_of decimal_builtins (record_sources integer_page ! i) = Inr (new ! i) \<and>
              bindE (py_getitem (record_sources integer_page ! i) ''id'') (py_int decimal_builtins)
                = Inr (neo_id (new ! i)) \<and>
              path (record_sources integer_page ! i)
                [''estimated_diameter'', ''kilometers'', ''estimated_diameter_min''] = Some lo \<and>
              path (record_sources integer_page ! i)
                [''estimated_diameter'', ''kilometers'', ''estimated_diameter_max''] = Some hi \<and>
              py_float decimal_builtins lo = Inr (estimated_diameter_min_km (new ! i)) \<and>
              py_float decimal_builtins hi = Inr (estimated_diameter_max_km (new ! i)) \<and>
              (\<forall>x. lo = PFloat x \<longrightarrow> estimated_diameter_min_km (new ! i) = x) \<and>
              (\<forall>y. hi = PFloat y \<longrightarrow> estimated_diameter_max_km (new ! i) = y) \<and>
              (\<forall>x y. lo = PFloat x \<and> hi = PFloat y \<and> x \<le> y \<longrightarrow>
                 estimated_diameter_min_km (new ! i) \<le> estimated_diameter_max_km (new ! i)) \<and>
              ((\<forall>u v x y. number_le u v \<and> py_float decimal_builtins u = Inr x \<and>
                   py_float decimal_builtins v = Inr y \<longrightarrow> x \<le> y) \<and> number_le lo hi \<longrightarrow>
                 estimated_diameter_min_km (new ! i) \<le> estimated_diameter_max_km (new ! i))"
    by (elim exE conjE)
  from a have new: "new = [integer_asteroid_info]"
    by (simp add: appended_def new_extractor_def)
  then have z: "0 < length new"
    by simp
  from r [rule_format, OF z] obtain lo hi where
    c: "asteroid_info_of decimal_builtins (record_sources integer_page ! 0) = Inr (new ! 0) \<and>
        bindE (py_getitem (record_sources integer_page ! 0) ''id'') (py_int decimal_builtins)
          = Inr (neo_id (new ! 0)) \<and>
        path (record_sources integer_page ! 0)
          [''estimated_diameter'', ''kilometers'', ''estimated_diameter_min''] = Some lo \<and>
        path (record_sources integer_page ! 0)
          [''estimated_diameter'', ''kilometers'', ''estimated_diameter_max''] = Some hi \<and>
        py_float decimal_builtins lo = Inr (estimated_diameter_min_km (new ! 0)) \<and>
        py_float decimal_builtins hi = Inr (estimated_diameter_max_km (new ! 0)) \<and>
        (\<forall>x. lo = PFloat x \<longrightarrow> estimated_diameter_min_km (new ! 0) = x) \<and>
        (\<forall>y. hi = PFloat y \<longrightarrow> estimated_diameter_max_km (new ! 0) = y) \<and>
        (\<forall>x y. lo = PFloat x \<and> hi = PFloat y \<and> x \<le> y \<longrightarrow>
           estimated_diameter_min_km (new ! 0) \<le> estimated_diameter_max_km (new ! 0)) \<and>
        ((\<forall>u v x y. number_le u v \<and> py_float decimal_builtins u = Inr x \<and>
             py_float decimal_builtins v = Inr y \<longrightarrow> x \<le> y) \<and> number_le lo hi \<longrightarrow>
           estimated_diameter_min_km (new ! 0) \<le> estimated_diameter_max_km (new ! 0))"
    by (elim exE)
  note p1 = c [THEN conjunct2, THEN conjunct2, THEN conjunct1]
  note p2 = c [THEN conjunct2, THEN conjunct2, THEN conjunct2, THEN conjunct1]
  note o = c [THEN conjunct2, THEN conjunct2, THEN conjunct2, THEN conjunct2, THEN conjunct2,
              THEN conjunct2, THEN conjunct2, THEN conjunct2, THEN conjunct2]
  from p1 have lo: "lo = PInt 1"
    by (simp add: integer_record_sources integer_diameters del: path.simps)
  from p2 have hi: "hi = PInt 2"
    by (simp add: integer_record_sources integer_diameters del: path.simps)
  from o [rule_format, OF conjI, OF mono] le
  have "estimated_diameter_min_km (new ! 0) \<le> estimated_diameter_max_km (new ! 0)"
    unfolding lo hi by simp
  then have "estimated_diameter_min_km integer_asteroid_info
      \<le> estimated_diameter_max_km integer_asteroid_info"
    by (simp add: new)
  then show ?thesis
    by (simp add: integer_extract integer_record_sources integer_diameters le
          integer_asteroid_info_def del: path.simps)
qed

lemma page_objects_truthy:
  assumes "asteroid \<in> set (page_objects neo_data)"
  shows "truthy B neo_data"
proof (cases neo_data)
  case (PDict kvs)
  with assms show ?thesis
    by (auto simp: page_objects_def page_dates_def field_def)
qed (use assms in \<open>auto simp: page_objects_def page_dates_def field_def\<close>)

text \<open>
  Claim C6, as stated, fails in its second part: on a page whose only record has two
  close-approach entries, the second without its lunar miss distance, the normalizer
  raises KeyError, and by then it has appended the object row and the approach row of the
  record's first close approach. A part of the malformed record has been extracted.
\<close>

theorem malformed_record_aborts_counterexample:
  "half_malformed_asteroid \<in> set (page_objects half_malformed_page) \<and>
   \<not> valid_asteroid decimal_builtins half_malformed_asteroid \<and>
   asteroid_info_of decimal_builtins half_malformed_asteroid = Inr example_asteroid_info \<and>
   extract_asteroid_fields decimal_builtins half_malformed_page new_extractor =
     Inl (KeyError, appended new_extractor [example_asteroid_info]
                      [example_approach_info ''2024-01-01''])"
  by (simp add: half_malformed_page_objects half_malformed_invalid half_malformed_info_of
        half_malformed_extract)

text \<open>
  Claim C6, amended. When some record of a page has a missing or non-coercible required
  nested field, the normalizer raises, whatever the state, and the collection loop that
  fetched this page raises with it: the run is aborted and returns no records. No default
  is substituted and nothing is skipped, but the lists are not rolled back: when the date
  groups of the page can be iterated, the state at the raise is the state before the call
  with, appended in page order, all rows of the records before the first malformed one
  and, of that one, its rows for the close-approach entries before the first that does not
  convert (none when one of the object's own fields is at fault).
\<close>

theorem malformed_record_aborts:
  assumes "asteroid \<in> set (page_objects neo_data)"
    and "\<not> valid_asteroid B asteroid"
  shows "isl (extract_asteroid_fields B neo_data s) \<and>
         (\<forall>T world start_date total_records s0 status_code.
            total_records < T \<and>
            world (calls s0) = Response status_code (Some neo_data) \<and>
            \<not> raise_for_status status_code \<longrightarrow>
            isl (collect_loop B T world start_date total_records s0)) \<and>
         (list_all (\<lambda>item. members (snd item) \<noteq> None) (page_dates neo_data) \<longrightarrow>
            (\<exists>e. extract_asteroid_fields B neo_data s =
                    Inl (e, appended s (asteroid_rows_at_raise B (page_objects neo_data))
                                       (approach_rows_at_raise B (page_objects neo_data)))))"
proof -
  from assms have nv: "\<not> valid_page B neo_data"
    by (auto simp: valid_page_def list_all_iff)
  have fails: "isl (extract_asteroid_fields B neo_data s1)" for s1
  proof (cases "extract_asteroid_fields B neo_data s1")
    case (Inr s2)
    with nv show ?thesis by (simp add: normalizer_spec)
  qed simp
  have t: "truthy B neo_data"
    using assms(1) by (rule page_objects_truthy)
  have loop: "isl (collect_loop B T world start_date total_records s0)"
    if "total_records < T" and "world (calls s0) = Response status_code (Some neo_data)"
      and "\<not> raise_for_status status_code"
    for T world start_date total_records s0 status_code
  proof -
    let ?s1 = "s0\<lparr>calls := Suc (calls s0),
                  trace := trace s0 @ [Get (strftime start_date) (strftime (add_days start_date 6))]\<rparr>"
    from that(2,3) have "fetch_neo_data world (strftime start_date)
        (strftime (add_days start_date 6)) s0 = (neo_data, ?s1)"
      by (simp add: fetch_neo_data_def Let_def)
    moreover obtain e where "extract_asteroid_fields B neo_data ?s1 = Inl e"
      using fails [of ?s1] by (cases "extract_asteroid_fields B neo_data ?s1") auto
    ultimately have "collect_body B world start_date total_records s0 = Inl e"
      using t by (simp add: collect_body_def Let_def)
    with that(1) show ?thesis
      by (subst collect_loop.simps) simp
  qed
  have rows: "\<exists>e. extract_asteroid_fields B neo_data s =
                    Inl (e, appended s (asteroid_rows_at_raise B (page_objects neo_data))
                                       (approach_rows_at_raise B (page_objects neo_data)))"
    if d: "list_all (\<lambda>item. members (snd item) \<noteq> None) (page_dates neo_data)"
  proof -
    obtain e s' where r: "extract_asteroid_fields B neo_data s = Inl (e, s')"
      using fails [of s] by (cases "extract_asteroid_fields B neo_data s") auto
    then have "extract_asteroids B (page_objects neo_data) s = Inl (e, s')"
      using extract_asteroid_fields_flat [OF assms(1) d, of B s] by simp
    then have "s' = appended s (asteroid_rows_at_raise B (page_objects neo_data))
                               (approach_rows_at_raise B (page_objects neo_data))"
      by (rule extract_asteroids_Inl_state)
    with r show ?thesis by blast
  qed
  from fails loop rows show ?thesis by blast
qed

theorem malformed_record_aborts_witness:
  "malformed_asteroid \<in> set (page_objects malformed_page) \<and>
   \<not> valid_asteroid decimal_builtins malformed_asteroid \<and>
   list_all (\<lambda>item. members (snd item) \<noteq> None) (page_dates malformed_page) \<and>
   isl (extract_asteroid_fields decimal_builtins malformed_page new_extractor) \<and>
   isl (collect_loop decimal_builtins 1 (\<lambda>n. Response 200 (Some malformed_page))
          first_day 0 new_extractor) \<and>
   (\<exists>e. extract_asteroid_fields decimal_builtins malformed_page new_extractor =
           Inl (e, appended new_extractor [example_asteroid_info, example_asteroid_info]
                     [example_approach_info ''2024-01-01'', example_approach_info ''2024-01-02'']))"
proof -
  have m: "malformed_asteroid \<in> set (page_objects malformed_page)"
    by (simp add: malformed_page_objects)
  have r: "\<not> raise_for_status 200"
    by (simp add: raise_for_status_def)
  show ?thesis
    using malformed_record_aborts [OF m malformed_asteroid_invalid, of new_extractor]
      m malformed_asteroid_invalid malformed_page_dates r
    by (simp add: malformed_rows_at_raise)
qed


section \<open>The collection loop: dates, effects and invariants\<close>


lemma add_days_numeral: "add_days d (numeral k) = add_days (next_day d) (pred_numeral k)"
  by (simp add: numeral_eq_Suc)

lemma add_days_731: "add_days first_day 731 = \<lparr>year = 2026, month = 1, day = 1\<rparr>"
  by (simp add: first_day_def add_days_numeral next_day_def days_in_month_def is_leap_def)

lemma add_days_728: "add_days first_day 728 = \<lparr>year = 2025, month = 12, day = 29\<rparr>"
  by (simp add: first_day_def add_days_numeral next_day_def days_in_month_def is_leap_def)

lemma year_after_731:
  assumes "731 \<le> n"
  shows "2025 < year (add_days first_day n)"
proof -
  from assms have "add_days first_day n = add_days (add_days first_day 731) (n - 731)"
    by (simp add: add_days_add)
  moreover have "year (add_days first_day 731) \<le> year (add_days (add_days first_day 731) (n - 731))"
    by (rule year_add_days)
  ultimately show ?thesis by (simp add: add_days_731)
qed

lemma year_before_728:
  assumes "n \<le> 728"
  shows "year (add_days first_day n) \<le> 2025"
proof -
  from assms have "add_days (add_days first_day n) (728 - n) = add_days first_day 728"
    by (simp add: add_days_add)
  moreover have "year (add_days first_day n) \<le> year (add_days (add_days first_day n) (728 - n))"
    by (rule year_add_days)
  ultimately show ?thesis by (simp add: add_days_728)
qed

lemma window_index_le: "year (add_days first_day (7 * k)) \<le> 2025 \<longleftrightarrow> k \<le> 104"
proof
  assume "year (add_days first_day (7 * k)) \<le> 2025"
  then have "\<not> 731 \<le> 7 * k"
    using year_after_731 [of "7 * k"] by auto
  then show "k \<le> 104" by simp
next
  assume "k \<le> 104"
  then have "7 * k \<le> 728" by simp
  then show "year (add_days first_day (7 * k)) \<le> 2025" by (rule year_before_728)
qed

text \<open>The normalizer leaves the world alone, also when it raises.\<close>

lemma calls_appended: "calls (appended s as ps) = calls s" "trace (appended s as ps) = trace s"
  by (simp_all add: appended_def)

lemma extract_approaches_Inl:
  "extract_approaches B asteroid info approaches s = Inl (e, s') \<Longrightarrow>
     calls s' = calls s \<and> trace s' = trace s"
  by (induction approaches arbitrary: s) (auto split: sum.splits)

lemma extract_asteroid_Inl:
  "extract_asteroid B asteroid s = Inl (e, s') \<Longrightarrow> calls s' = calls s \<and> trace s' = trace s"
  by (auto simp: extract_asteroid_def split: sum.splits dest: extract_approaches_Inl)

lemma extract_asteroids_Inl:
  "extract_asteroids B as s = Inl (e, s') \<Longrightarrow> calls s' = calls s \<and> trace s' = trace s"
proof (induction as arbitrary: s)
  case Nil
  then show ?case by simp
next
  case (Cons asteroid rest)
  show ?case
  proof (cases "extract_asteroid B asteroid s")
    case (Inl x)
    with Cons.prems show ?thesis by (auto dest: extract_asteroid_Inl)
  next
    case (Inr s1)
    then have "calls s1 = calls s \<and> trace s1 = trace s"
      by (auto simp: extract_asteroid_iff calls_appended)
    moreover from Inr Cons.prems have "extract_asteroids B rest s1 = Inl (e, s')" by simp
    then have "calls s' = calls s1 \<and> trace s' = trace s1" by (rule Cons.IH)
    ultimately show ?thesis by simp
  qed
qed

lemma extract_dates_Inl:
  "extract_dates B items s = Inl (e, s') \<Longrightarrow> calls s' = calls s \<and> trace s' = trace s"
proof (induction items arbitrary: s)
  case Nil
  then show ?case by simp
next
  case (Cons item rest)
  obtain date asteroids where item: "item = (date, asteroids)" by (cases item)
  show ?case
  proof (cases "py_iter asteroids")
    case (Inl x)
    with Cons.prems item show ?thesis by simp
  next
    case (Inr as)
    show ?thesis
    proof (cases "extract_asteroids B as s")
      case (Inl x)
      with Cons.prems item Inr show ?thesis by (auto dest: extract_asteroids_Inl)
    next
      case r: (Inr s1)
      then have "calls s1 = calls s \<and> trace s1 = trace s"
        by (auto simp: extract_asteroids_iff calls_appended)
      moreover from r Inr item Cons.prems have "extract_dates B rest s1 = Inl (e, s')" by simp
      then have "calls s' = calls s1 \<and> trace s' = trace s1" by (rule Cons.IH)
      ultimately show ?thesis by simp
    qed
  qed
qed

lemma extract_asteroid_fields_Inl:
  "extract_asteroid_fields B neo_data s = Inl (e, s') \<Longrightarrow>
     calls s' = calls s \<and> trace s' = trace s"
  by (auto simp: extract_asteroid_fields_def split: sum.splits dest: extract_dates_Inl)

text \<open>The two lists stay paired.\<close>

lemma page_rows_aligned:
  "list_all (valid_asteroid B) objects \<Longrightarrow>
     map neo_id (concat (map (asteroid_rows B) objects)) =
     map neo_reference_id (concat (map (approach_rows B) objects))"
  by (induction objects) (simp_all add: rows_aligned)

lemma extract_aligned:
  assumes "extract_asteroid_fields B neo_data s = Inr s'" and "aligned s"
  shows "aligned s'"
proof -
  from assms(1) have v: "list_all (valid_asteroid B) (page_objects neo_data)"
    and s': "s' = appended s (concat (map (asteroid_rows B) (page_objects neo_data)))
                     (concat (map (approach_rows B) (page_objects neo_data)))"
    by (simp_all add: normalizer_spec valid_page_def)
  from v have "map neo_id (concat (map (asteroid_rows B) (page_objects neo_data))) =
     map neo_reference_id (concat (map (approach_rows B) (page_objects neo_data)))"
    by (rule page_rows_aligned)
  with assms(2) show ?thesis
    by (simp add: s' aligned_def appended_def)
qed

text \<open>One pass through the loop body.\<close>

lemma fetch_neo_data_state:
  "snd (fetch_neo_data world start_str end_str s) =
     s\<lparr>calls := Suc (calls s), trace := trace s @ [Get start_str end_str]\<rparr>"
  by (simp add: fetch_neo_data_def Let_def raise_for_status_def
           split: http_outcome.splits option.splits)

lemma collect_body_Inr:
  assumes "collect_body B world start_date total_records s = Inr (start_date', total_records', s')"
  shows "start_date' = add_days start_date 7"
    and "calls s' = Suc (calls s)"
    and "aligned s \<Longrightarrow> aligned s'"
    and "total_records = int (length (asteroid_data s)) \<Longrightarrow>
           total_records' = int (length (asteroid_data s'))"
proof -
  show "start_date' = add_days start_date 7"
    using assms by (rule collect_body_start)
  obtain neo_data s1 where f: "fetch_neo_data world (strftime start_date)
      (strftime (add_days start_date 6)) s = (neo_data, s1)"
    by (cases "fetch_neo_data world (strftime start_date) (strftime (add_days start_date 6)) s")
  then have s1: "s1 = s\<lparr>calls := Suc (calls s),
      trace := trace s @ [Get (strftime start_date) (strftime (add_days start_date 6))]\<rparr>"
    using fetch_neo_data_state [of world "strftime start_date" "strftime (add_days start_date 6)" s]
    by simp
  show "calls s' = Suc (calls s)"
  proof (cases "truthy B neo_data")
    case True
    with assms f obtain s2 where e: "extract_asteroid_fields B neo_data s1 = Inr s2"
      and "s' = sleep 1 s2"
      by (auto simp: collect_body_def Let_def split: sum.splits)
    then show ?thesis
      by (auto simp: normalizer_spec calls_appended sleep_def s1)
  next
    case False
    with assms f have "s' = sleep 5 s1"
      by (auto simp: collect_body_def Let_def)
    then show ?thesis by (simp add: sleep_def s1)
  qed
  show "aligned s'" if a: "aligned s"
  proof (cases "truthy B neo_data")
    case True
    with assms f obtain s2 where e: "extract_asteroid_fields B neo_data s1 = Inr s2"
      and s': "s' = sleep 1 s2"
      by (auto simp: collect_body_def Let_def split: sum.splits)
    from a have "aligned s1" by (simp add: aligned_def s1)
    with e have "aligned s2" by (rule extract_aligned)
    then show ?thesis by (simp add: aligned_def s' sleep_def)
  next
    case False
    with assms f have "s' = sleep 5 s1"
      by (auto simp: collect_body_def Let_def)
    with a show ?thesis by (simp add: aligned_def sleep_def s1)
  qed
  show "total_records' = int (length (asteroid_data s'))"
    if t: "total_records = int (length (asteroid_data s))"
  proof (cases "truthy B neo_data")
    case True
    with assms f obtain s2 where "total_records' = int (length (asteroid_data s2))"
      and "s' = sleep 1 s2"
      by (auto simp: collect_body_def Let_def split: sum.splits)
    then show ?thesis by (simp add: sleep_def)
  next
    case False
    with assms f have "s' = sleep 5 s1" and "total_records' = total_records"
      by (auto simp: collect_body_def Let_def)
    with t show ?thesis by (simp add: sleep_def s1)
  qed
qed

lemma collect_body_Inl:
  assumes "collect_body B world start_date total_records s = Inl (e, s')"
  shows "calls s' = Suc (calls s)"
proof -
  obtain neo_data s1 where f: "fetch_neo_data world (strftime start_date)
      (strftime (add_days start_date 6)) s = (neo_data, s1)"
    by (cases "fetch_neo_data world (strftime start_date) (strftime (add_days start_date 6)) s")
  then have s1: "calls s1 = Suc (calls s)"
    using fetch_neo_data_state [of world "strftime start_date" "strftime (add_days start_date 6)" s]
    by simp
  from assms f have "extract_asteroid_fields B neo_data s1 = Inl (e, s')"
    by (auto simp: collect_body_def Let_def split: sum.splits if_splits)
  then have "calls s' = calls s1" by (auto dest: extract_asteroid_fields_Inl)
  with s1 show ?thesis by simp
qed

text \<open>Invariants of the loop.\<close>

lemma collect_loop_Inr:
  assumes "I start_date total_records s"
    and "year start_date \<le> 2025"
    and "collect_loop B T world start_date total_records s = Inr (start_date', total_records', s')"
    and "\<And>start_date total_records s start_date' total_records' s'.
      I start_date total_records s \<Longrightarrow> year start_date \<le> 2025 \<Longrightarrow> total_records < T \<Longrightarrow>
      collect_body B world start_date total_records s = Inr (start_date', total_records', s') \<Longrightarrow>
      I start_date' total_records' s'"
  shows "I start_date' total_records' s' \<and> (T \<le> total_records' \<or> 2025 < year start_date')"
  using assms
proof (induction B T world start_date total_records s rule: collect_loop.induct)
  case (1 B T world start_date total_records s)
  note step = "1.prems"(4)
  show ?case
  proof (cases "total_records < T")
    case False
    with "1.prems"(1,3) show ?thesis
      by (subst (asm) collect_loop.simps) auto
  next
    case True
    with "1.prems"(3) obtain d t s1 where
      b: "collect_body B world start_date total_records s = Inr (d, t, s1)"
      and r: "(if 2025 < year d then Inr (d, t, s1) else collect_loop B T world d t s1)
               = Inr (start_date', total_records', s')"
      by (subst (asm) collect_loop.simps) (auto split: sum.splits)
    from "1.prems"(1,2) True b have i: "I d t s1" by (rule step)
    show ?thesis
    proof (cases "2025 < year d")
      case True
      with r i show ?thesis by auto
    next
      case False
      with r have c: "collect_loop B T world d t s1 = Inr (start_date', total_records', s')"
        by simp
      from False have y: "year d \<le> 2025" by simp
      show ?thesis
        by (rule "1.IH" [OF True b refl refl False i y c step])
    qed
  qed
qed

lemma collect_loop_Inl:
  assumes "I start_date total_records s"
    and "year start_date \<le> 2025"
    and "collect_loop B T world start_date total_records s = Inl (e, s')"
    and "\<And>start_date total_records s start_date' total_records' s'.
      I start_date total_records s \<Longrightarrow> year start_date \<le> 2025 \<Longrightarrow> total_records < T \<Longrightarrow>
      collect_body B world start_date total_records s = Inr (start_date', total_records', s') \<Longrightarrow>
      I start_date' total_records' s'"
  shows "\<exists>d t s0. I d t s0 \<and> year d \<le> 2025 \<and> t < T \<and> collect_body B world d t s0 = Inl (e, s')"
  using assms
proof (induction B T world start_date total_records s rule: collect_loop.induct)
  case (1 B T world start_date total_records s)
  note step = "1.prems"(4)
  have t: "total_records < T"
  proof (rule ccontr)
    assume "\<not> total_records < T"
    with "1.prems"(3) show False
      by (subst (asm) collect_loop.simps) simp
  qed
  show ?case
  proof (cases "collect_body B world start_date total_records s")
    case (Inl x)
    with t "1.prems"(3) have "collect_body B world start_date total_records s = Inl (e, s')"
      by (subst (asm) collect_loop.simps) simp
    with t "1.prems"(1,2) show ?thesis by blast
  next
    case (Inr x)
    obtain d t' s1 where x: "x = (d, t', s1)" by (cases x)
    with Inr have b: "collect_body B world start_date total_records s = Inr (d, t', s1)"
      by simp
    from "1.prems"(1,2) t b have i: "I d t' s1" by (rule step)
    from t b "1.prems"(3) have ny: "\<not> 2025 < year d"
      by (subst (asm) collect_loop.simps) (auto split: if_splits)
    with t b "1.prems"(3) have c: "collect_loop B T world d t' s1 = Inl (e, s')"
      by (subst (asm) collect_loop.simps) simp
    from ny have y: "year d \<le> 2025" by simp
    show ?thesis
      by (rule "1.IH" [OF t b refl refl ny i y c step])
  qed
qed


section \<open>An example run, evaluated\<close>

lemma first_window:
  "strftime first_day = ''2024-01-01''"
  "strftime (add_days first_day 6) = ''2024-01-07''"
  "add_days first_day 7 = \<lparr>year = 2024, month = 1, day = 8\<rparr>"
  by (simp_all add: first_day_def add_days_numeral next_day_def days_in_month_def is_leap_def
        strftime_def dec_digit_def)

lemma truthy_example_page: "truthy B example_page"
  by (simp add: example_page_def)

lemma example_body:
  "collect_body decimal_builtins example_world first_day 0 new_extractor =
     Inr (\<lparr>year = 2024, month = 1, day = 8\<rparr>, 2,
          example_final [Get ''2024-01-01'' ''2024-01-07'', Sleep 1])"
proof -
  have "add_days (add_days first_day 6) 1 = add_days first_day (6 + 1)"
    by (rule add_days_add)
  then have "add_days (add_days first_day 6) 1 = add_days first_day 7"
    by simp
  then show ?thesis
    unfolding collect_body_def first_window
    by (simp add: Let_def fetch_neo_data_def example_world_def raise_for_status_def
          truthy_example_page example_extract appended_def sleep_def new_extractor_def
          example_final_def first_window del: add_days.simps)
qed

lemma example_loop:
  "collect_loop decimal_builtins 2 example_world first_day 0 new_extractor =
     Inr (\<lparr>year = 2024, month = 1, day = 8\<rparr>, 2,
          example_final [Get ''2024-01-01'' ''2024-01-07'', Sleep 1])"
  by (subst collect_loop.simps, simp add: example_body, subst collect_loop.simps, simp)

lemma example_run:
  "collect_data decimal_builtins 2 example_world new_extractor =
     Inr (example_final [Get ''2024-01-01'' ''2024-01-07'', Sleep 1])"
  by (simp add: collect_data_def example_loop py_slice_to_def example_final_def)


lemma map_py_slice_to: "map f (py_slice_to xs T) = py_slice_to (map f xs) T"
  by (simp add: py_slice_to_def take_map)

lemma collect_loop_aligned:
  assumes "collect_loop B T world first_day 0 new_extractor = Inr (start_date, total_records, s1)"
  shows "aligned s1"
    and "total_records = int (length (asteroid_data s1))"
    and "T \<le> total_records \<or> 2025 < year start_date"
proof -
  let ?I = "\<lambda>(d :: date) t s. aligned s \<and> t = int (length (asteroid_data s))"
  have "?I start_date total_records s1 \<and> (T \<le> total_records \<or> 2025 < year start_date)"
  proof (rule collect_loop_Inr [where I = ?I, OF _ _ assms])
    show "aligned new_extractor \<and> 0 = int (length (asteroid_data new_extractor))"
      by (simp add: aligned_def new_extractor_def)
    show "year first_day \<le> 2025" by (simp add: first_day_def)
  next
    fix start_date total_records s start_date' total_records' and s' :: "'a state"
    assume "aligned s \<and> total_records = int (length (asteroid_data s))"
      and "collect_body B world start_date total_records s = Inr (start_date', total_records', s')"
    then show "aligned s' \<and> total_records' = int (length (asteroid_data s'))"
      using collect_body_Inr(3,4) by blast
  qed
  then show "aligned s1" and "total_records = int (length (asteroid_data s1))"
    and "T \<le> total_records \<or> 2025 < year start_date"
    by blast+
qed

text \<open>Counting the passes of the loop.\<close>

lemma add_days_week: "add_days (add_days first_day (7 * k)) 7 = add_days first_day (7 * Suc k)"
proof -
  have "add_days (add_days first_day (7 * k)) 7 = add_days first_day (7 * k + 7)"
    by (rule add_days_add)
  moreover have "7 * k + 7 = 7 * Suc k" by simp
  ultimately show ?thesis by (simp only:)
qed

lemma window_count_step:
  assumes "window_count d s" and "year d \<le> 2025"
    and "collect_body B world d t s = Inr (d', t', s')"
  shows "window_count d' s'"
proof -
  from assms(1) obtain k where d: "d = add_days first_day (7 * k)" and c: "calls s = k"
    by (auto simp: window_count_def)
  from assms(2) have k: "k \<le> 104"
    by (simp add: d window_index_le)
  from assms(3) have "d' = add_days d 7" and "calls s' = Suc (calls s)"
    by (rule collect_body_Inr)+
  with d c have "d' = add_days first_day (7 * Suc k)" and "calls s' = Suc k"
    by (simp_all only: add_days_week)
  with k show ?thesis
    unfolding window_count_def by (intro exI [of _ "Suc k"]) simp
qed

lemma window_count_init: "window_count first_day new_extractor"
  unfolding window_count_def by (intro exI [of _ 0]) (simp add: new_extractor_def)

lemma collect_loop_calls:
  "case collect_loop B T world first_day 0 new_extractor of
     Inl (e, s') \<Rightarrow> calls s' \<le> 105
   | Inr (d, t, s') \<Rightarrow> calls s' \<le> 105"
proof (cases "collect_loop B T world first_day 0 new_extractor")
  case (Inl x)
  obtain e s' where x: "x = (e, s')" by (cases x)
  have "\<exists>d t s0. window_count d s0 \<and> year d \<le> 2025 \<and> t < T \<and>
          collect_body B world d t s0 = Inl (e, s')"
  proof (rule collect_loop_Inl [where I = "\<lambda>d t s. window_count d s"])
    show "window_count first_day new_extractor" by (rule window_count_init)
    show "year first_day \<le> 2025" by (simp add: first_day_def)
    show "collect_loop B T world first_day 0 new_extractor = Inl (e, s')"
      using Inl x by simp
  qed (rule window_count_step)
  then obtain d t s0 where w: "window_count d s0" and y: "year d \<le> 2025"
    and b: "collect_body B world d t s0 = Inl (e, s')"
    by blast
  from w y have "calls s0 \<le> 104"
    by (auto simp: window_count_def window_index_le)
  moreover from b have "calls s' = Suc (calls s0)" by (rule collect_body_Inl)
  ultimately show ?thesis using Inl x by simp
next
  case (Inr x)
  obtain d t s' where x: "x = (d, t, s')" by (cases x) auto
  have "window_count d s' \<and> (T \<le> t \<or> 2025 < year d)"
  proof (rule collect_loop_Inr [where I = "\<lambda>d t s. window_count d s"])
    show "window_count first_day new_extractor" by (rule window_count_init)
    show "year first_day \<le> 2025" by (simp add: first_day_def)
    show "collect_loop B T world first_day 0 new_extractor = Inr (d, t, s')"
      using Inr x by simp
  qed (rule window_count_step)
  then have "calls s' \<le> 105" by (auto simp: window_count_def)
  with Inr x show ?thesis by simp
qed

lemma all_fail_body:
  assumes "\<forall>n. world n = RequestFailed"
  shows "collect_body B world d t s =
     Inr (add_days d 7, t,
          s\<lparr>calls := Suc (calls s),
            trace := trace s @ [Get (strftime d) (strftime (add_days d 6)), Sleep 5]\<rparr>)"
proof -
  have "add_days (add_days d 6) 1 = add_days d (6 + 1)"
    by (rule add_days_add)
  then have "add_days (add_days d 6) 1 = add_days d 7"
    by simp
  with assms show ?thesis
    unfolding collect_body_def
    by (simp add: Let_def fetch_neo_data_def sleep_def del: add_days.simps)
qed

lemma all_fail_loop:
  assumes "\<forall>n. world n = RequestFailed" and "t < T"
  shows "n = 104 - k \<Longrightarrow> k \<le> 104 \<Longrightarrow>
     \<exists>d s'. collect_loop B T world (add_days first_day (7 * k)) t s = Inr (d, t, s') \<and>
            2025 < year d \<and>
            asteroid_data s' = asteroid_data s \<and> approach_data s' = approach_data s \<and>
            calls s' = calls s + (105 - k)"
proof (induction n arbitrary: k s)
  case 0
  then have k: "k = 104" by simp
  let ?d = "add_days first_day (7 * k)"
  have "2025 < year (add_days first_day (7 * Suc k))"
    by (rule year_after_731) (simp add: k)
  then have "2025 < year (add_days ?d 7)"
    by (simp only: add_days_week)
  then show ?case
    by (subst collect_loop.simps) (simp add: assms all_fail_body k del: add_days.simps)
next
  case (Suc n)
  then have k: "Suc k \<le> 104" and n: "n = 104 - Suc k" by simp_all
  let ?d = "add_days first_day (7 * k)"
  let ?s1 = "s\<lparr>calls := Suc (calls s),
               trace := trace s @ [Get (strftime ?d) (strftime (add_days ?d 6)), Sleep 5]\<rparr>"
  from k have "year (add_days first_day (7 * Suc k)) \<le> 2025"
    by (simp only: window_index_le)
  then have y: "\<not> 2025 < year (add_days ?d 7)"
    by (simp only: add_days_week)
  have "collect_loop B T world ?d t s = collect_loop B T world (add_days ?d 7) t ?s1"
    by (subst collect_loop.simps) (simp add: assms all_fail_body y del: add_days.simps)
  also have "\<dots> = collect_loop B T world (add_days first_day (7 * Suc k)) t ?s1"
    by (simp only: add_days_week)
  finally have e: "collect_loop B T world ?d t s =
      collect_loop B T world (add_days first_day (7 * Suc k)) t ?s1" .
  from Suc.IH [OF n k, of ?s1] k show ?case
    unfolding e by auto
qed

section \<open>Claims about the collection driver\<close>

text \<open>
  Claim C5. After every complete collection run, the trimming of both lists included,
  every approach-event record's reference identifier is the identifier of some object
  record of the returned object-record list.
\<close>

theorem approach_references_object:
  assumes "collect_data B T world new_extractor = Inr s'"
  shows "\<forall>approach \<in> set (approach_data s').
           \<exists>asteroid \<in> set (asteroid_data s'). neo_id asteroid = neo_reference_id approach"
proof -
  from assms obtain start_date total_records s1 where
    l: "collect_loop B T world first_day 0 new_extractor = Inr (start_date, total_records, s1)"
    and s': "s' = s1\<lparr>asteroid_data := py_slice_to (asteroid_data s1) T,
                      approach_data := py_slice_to (approach_data s1) T\<rparr>"
    by (auto simp: collect_data_def split: sum.splits)
  from l have "aligned s1" by (rule collect_loop_aligned)
  then have m: "map neo_id (asteroid_data s') = map neo_reference_id (approach_data s')"
    by (simp add: s' aligned_def map_py_slice_to)
  show ?thesis
  proof
    fix approach
    assume "approach \<in> set (approach_data s')"
    then have "neo_reference_id approach \<in> set (map neo_reference_id (approach_data s'))"
      by simp
    with m have "neo_reference_id approach \<in> set (map neo_id (asteroid_data s'))"
      by simp
    then show "\<exists>asteroid \<in> set (asteroid_data s'). neo_id asteroid = neo_reference_id approach"
      by auto
  qed
qed

theorem approach_references_object_witness:
  "collect_data decimal_builtins 2 example_world new_extractor =
     Inr (example_final [Get ''2024-01-01'' ''2024-01-07'', Sleep 1]) \<and>
   neo_reference_id ` set (approach_data (example_final [Get ''2024-01-01'' ''2024-01-07'', Sleep 1]))
     \<subseteq> neo_id ` set (asteroid_data (example_final [Get ''2024-01-01'' ''2024-01-07'', Sleep 1]))"
  using approach_references_object [OF example_run] example_run by force

text \<open>
  Claim C3. For a run with target count \<open>T\<close> that is not aborted by a malformed page: if
  at least \<open>T\<close> object records have been accumulated when the loop is left, \<open>collect_data\<close>
  returns exactly \<open>T\<close> object records; otherwise the loop was left at the ceiling (the
  window start is in a year after 2025), fewer than \<open>T\<close> object records are returned, and
  the trimming changes neither list.
\<close>

theorem collect_data_count:
  assumes "0 \<le> T"
    and "collect_loop B T world first_day 0 new_extractor = Inr (start_date, total_records, s1)"
  shows "\<exists>s'. collect_data B T world new_extractor = Inr s' \<and>
           (if T \<le> int (length (asteroid_data s1))
            then int (length (asteroid_data s')) = T
            else 2025 < year start_date \<and>
                 asteroid_data s' = asteroid_data s1 \<and>
                 approach_data s' = approach_data s1 \<and>
                 int (length (asteroid_data s')) < T)"
proof -
  let ?s' = "s1\<lparr>asteroid_data := py_slice_to (asteroid_data s1) T,
                 approach_data := py_slice_to (approach_data s1) T\<rparr>"
  from assms(2) have c: "collect_data B T world new_extractor = Inr ?s'"
    by (simp add: collect_data_def)
  from assms(2) have a: "aligned s1"
    and t: "total_records = int (length (asteroid_data s1))"
    and x: "T \<le> total_records \<or> 2025 < year start_date"
    by (rule collect_loop_aligned)+
  from a have "length (map neo_id (asteroid_data s1)) = length (map neo_reference_id (approach_data s1))"
    by (simp only: aligned_def)
  then have len: "length (approach_data s1) = length (asteroid_data s1)" by simp
  show ?thesis
  proof (cases "T \<le> int (length (asteroid_data s1))")
    case True
    with assms(1) have "int (length (asteroid_data ?s')) = T"
      by (simp add: py_slice_to_def)
    with True c show ?thesis by auto
  next
    case False
    with x t have "2025 < year start_date" by simp
    moreover from False assms(1) have "asteroid_data ?s' = asteroid_data s1"
      and "approach_data ?s' = approach_data s1"
      by (simp_all add: py_slice_to_def len)
    ultimately show ?thesis using False c by auto
  qed
qed

theorem collect_data_count_witness:
  "(0::int) \<le> 2 \<and>
   collect_loop decimal_builtins 2 example_world first_day 0 new_extractor =
     Inr (\<lparr>year = 2024, month = 1, day = 8\<rparr>, 2,
          example_final [Get ''2024-01-01'' ''2024-01-07'', Sleep 1]) \<and>
   (\<exists>s'. collect_data decimal_builtins 2 example_world new_extractor = Inr s' \<and>
          int (length (asteroid_data s')) = 2) \<and>
   (\<exists>start_date s1 s'.
      collect_loop decimal_builtins 10000 silent_world first_day 0 new_extractor =
        Inr (start_date, 0, s1) \<and>
      collect_data decimal_builtins 10000 silent_world new_extractor = Inr s' \<and>
      2025 < year start_date \<and>
      asteroid_data s' = asteroid_data s1 \<and> approach_data s' = approach_data s1 \<and>
      int (length (asteroid_data s')) < 10000)"
proof -
  have t: "(0::int) \<le> 2" by simp
  have first: "\<exists>s'. collect_data decimal_builtins 2 example_world new_extractor = Inr s' \<and>
          int (length (asteroid_data s')) = 2"
    using collect_data_count [OF t example_loop]
    by (simp add: example_final_def)
  have af: "\<forall>n. silent_world n = RequestFailed" by (simp add: silent_world_def)
  have u: "(0::int) \<le> 10000" "(0::int) < 10000" by simp_all
  obtain d s1 where l: "collect_loop decimal_builtins 10000 silent_world first_day 0 new_extractor
      = Inr (d, 0, s1)" and e: "asteroid_data s1 = []"
    using all_fail_loop [OF af u(2) refl, where k = 0 and s = new_extractor
        and B = decimal_builtins]
    by (auto simp: new_extractor_def)
  from collect_data_count [OF u(1) l] e l
  have "\<exists>s'. collect_loop decimal_builtins 10000 silent_world first_day 0 new_extractor =
        Inr (d, 0, s1) \<and>
      collect_data decimal_builtins 10000 silent_world new_extractor = Inr s' \<and>
      2025 < year d \<and>
      asteroid_data s' = asteroid_data s1 \<and> approach_data s' = approach_data s1 \<and>
      int (length (asteroid_data s')) < 10000"
    by auto
  with t example_loop first show ?thesis by blast
qed

text \<open>
  Claim C10. The collection loop terminates for every sequence of fetch outcomes
  (\<open>collect_loop\<close> is a total function, by the termination proof above), and within a
  bounded number of passes: a run sends at most 105 requests, whether it returns or is
  aborted. Every pass moves the window start on by 7 days, whatever the fetch gave. When
  every fetch fails and the target is positive, the run returns after exactly 105
  requests with both lists empty.
\<close>

theorem collect_data_bounded:
  "(case collect_data B T world new_extractor of
      Inl (e, s') \<Rightarrow> calls s' \<le> 105
    | Inr s' \<Rightarrow> calls s' \<le> 105) \<and>
   (\<forall>start_date total_records s start_date' total_records' s'.
      collect_body B world start_date total_records s = Inr (start_date', total_records', s')
      \<longrightarrow> start_date' = add_days start_date 7) \<and>
   ((\<forall>n. world n = RequestFailed) \<and> 0 < T \<longrightarrow>
      (\<exists>s'. collect_data B T world new_extractor = Inr s' \<and>
            asteroid_data s' = [] \<and> approach_data s' = [] \<and> calls s' = 105))"
proof (intro conjI impI allI)
  show "case collect_data B T world new_extractor of
      Inl (e, s') \<Rightarrow> calls s' \<le> 105
    | Inr s' \<Rightarrow> calls s' \<le> 105"
    using collect_loop_calls [of B T world]
    by (auto simp: collect_data_def split: sum.splits)
next
  fix start_date total_records s start_date' total_records' s'
  assume "collect_body B world start_date total_records s = Inr (start_date', total_records', s')"
  then show "start_date' = add_days start_date 7" by (rule collect_body_start)
next
  assume a: "(\<forall>n. world n = RequestFailed) \<and> 0 < T"
  then have af: "\<forall>n. world n = RequestFailed" and t: "0 < T" by simp_all
  have "\<exists>d s'. collect_loop B T world first_day 0 new_extractor = Inr (d, 0, s') \<and>
      2025 < year d \<and> asteroid_data s' = [] \<and> approach_data s' = [] \<and> calls s' = 105"
    using all_fail_loop [OF af t refl, where k = 0 and s = new_extractor and B = B]
    by (simp add: new_extractor_def)
  then obtain d s1 where "collect_loop B T world first_day 0 new_extractor = Inr (d, 0, s1)"
    and "asteroid_data s1 = []" and "approach_data s1 = []" and "calls s1 = 105"
    by auto
  then show "\<exists>s'. collect_data B T world new_extractor = Inr s' \<and>
            asteroid_data s' = [] \<and> approach_data s' = [] \<and> calls s' = 105"
    by (simp add: collect_data_def py_slice_to_def)
qed

theorem collect_data_bounded_witness:
  "silent_world 0 = RequestFailed \<and> (0::int) < 10000 \<and>
   (\<exists>s'. collect_data decimal_builtins 10000 silent_world new_extractor = Inr s' \<and>
         asteroid_data s' = [] \<and> approach_data s' = [] \<and> calls s' = 105)"
  using collect_data_bounded [of decimal_builtins 10000 silent_world]
  by (simp add: silent_world_def)

lemma next_window:
  "strftime (add_days first_day 7) = ''2024-01-08''"
  "strftime (add_days (add_days first_day 7) 6) = ''2024-01-14''"
  "year (add_days first_day 7) = 2024"
  "year (add_days (add_days first_day 7) 7) = 2024"
  by (simp_all add: first_day_def add_days_numeral next_day_def days_in_month_def is_leap_def
        strftime_def dec_digit_def)

lemma add_days_6_1: "add_days (add_days d 6) (Suc 0) = add_days d 7"
proof -
  have "add_days (add_days d 6) 1 = add_days d (6 + 1)"
    by (rule add_days_add)
  then show ?thesis by simp
qed

lemma failing_once_first_body:
  "collect_body decimal_builtins failing_once_world first_day 0 new_extractor =
     Inr (add_days first_day 7, 0, after_failure)"
  unfolding collect_body_def
  by (simp add: Let_def fetch_neo_data_def failing_once_world_def raise_for_status_def
        sleep_def new_extractor_def after_failure_def first_window(1,2) add_days_6_1
        del: add_days.simps)

lemma failing_once_second_body:
  "collect_body decimal_builtins failing_once_world (add_days first_day 7) 0 after_failure =
     Inr (add_days (add_days first_day 7) 7, 2,
          example_final [Get ''2024-01-01'' ''2024-01-07'', Sleep 5,
                         Get ''2024-01-08'' ''2024-01-14'', Sleep 1])"
  unfolding collect_body_def
  by (simp add: Let_def fetch_neo_data_def failing_once_world_def raise_for_status_def
        truthy_example_page example_extract appended_def sleep_def after_failure_def
        example_final_def next_window add_days_6_1 del: add_days.simps)

text \<open>
  Claim C2 does not hold of the code. In the run below the first fetch fails with an HTTP
  500; the code prints "Failed to fetch data. Retrying...", sleeps the long delay, and
  then fetches not the same window but the next one, 2024-01-08 to 2024-01-14. The window
  2024-01-01 to 2024-01-07 is never requested again.
\<close>

theorem failed_window_not_retried:
  "failing_once_world 0 = Response 500 None \<and>
   collect_data decimal_builtins 2 failing_once_world new_extractor =
     Inr (example_final [Get ''2024-01-01'' ''2024-01-07'', Sleep 5,
                         Get ''2024-01-08'' ''2024-01-14'', Sleep 1])"
proof -
  let ?final = "example_final [Get ''2024-01-01'' ''2024-01-07'', Sleep 5,
                               Get ''2024-01-08'' ''2024-01-14'', Sleep 1]"
  have "collect_loop decimal_builtins 2 failing_once_world first_day 0 new_extractor =
      collect_loop decimal_builtins 2 failing_once_world (add_days first_day 7) 0 after_failure"
    by (subst collect_loop.simps) (simp add: failing_once_first_body next_window del: add_days.simps)
  also have "\<dots> = collect_loop decimal_builtins 2 failing_once_world
      (add_days (add_days first_day 7) 7) 2 ?final"
    by (subst collect_loop.simps) (simp add: failing_once_second_body next_window del: add_days.simps)
  also have "\<dots> = Inr (add_days (add_days first_day 7) 7, 2, ?final)"
    by (subst collect_loop.simps) simp
  finally show ?thesis
    by (simp add: collect_data_def py_slice_to_def example_final_def failing_once_world_def)
qed

section \<open>Claims about the fetch client\<close>

text \<open>
  Claim C7, amended. For every start/end date pair, \<open>fetch_neo_data\<close> returns the decoded
  JSON body when the response has a status code outside 400 to 599 and a parseable body,
  and \<open>None\<close> on every network failure, on every response with a status code from 400 to
  599, and on an unparseable body. It sends exactly one request per call: no retry.
\<close>

theorem fetch_neo_data_result:
  "(\<forall>status_code v. world (calls s) = Response status_code (Some v) \<and>
       (status_code < 400 \<or> 600 \<le> status_code) \<longrightarrow>
       fst (fetch_neo_data world start_date end_date s) = v) \<and>
   (world (calls s) = RequestFailed \<longrightarrow>
       fst (fetch_neo_data world start_date end_date s) = PNone) \<and>
   (\<forall>status_code body. world (calls s) = Response status_code body \<and>
       400 \<le> status_code \<and> status_code < 600 \<longrightarrow>
       fst (fetch_neo_data world start_date end_date s) = PNone) \<and>
   (\<forall>status_code. world (calls s) = Response status_code None \<longrightarrow>
       fst (fetch_neo_data world start_date end_date s) = PNone) \<and>
   snd (fetch_neo_data world start_date end_date s) =
     s\<lparr>calls := Suc (calls s), trace := trace s @ [Get start_date end_date]\<rparr>"
proof -
  have "snd (fetch_neo_data world start_date end_date s) =
     s\<lparr>calls := Suc (calls s), trace := trace s @ [Get start_date end_date]\<rparr>"
    by (rule fetch_neo_data_state)
  then show ?thesis
    by (auto simp: fetch_neo_data_def Let_def raise_for_status_def)
qed

theorem fetch_neo_data_result_witness:
  "fst (fetch_neo_data example_world ''2024-01-01'' ''2024-01-07'' new_extractor) = example_page \<and>
   fst (fetch_neo_data failing_once_world ''2024-01-01'' ''2024-01-07'' new_extractor) = PNone \<and>
   snd (fetch_neo_data example_world ''2024-01-01'' ''2024-01-07'' new_extractor) =
     new_extractor\<lparr>calls := 1, trace := [Get ''2024-01-01'' ''2024-01-07'']\<rparr>"
  using fetch_neo_data_result [of example_world new_extractor "''2024-01-01''" "''2024-01-07''"]
    fetch_neo_data_result [of failing_once_world new_extractor "''2024-01-01''" "''2024-01-07''"]
  by (simp add: example_world_def failing_once_world_def new_extractor_def)

text \<open>
  Claim C7, as stated, fails: a response that is not 2xx does not always give \<open>None\<close>. A
  status 300 is not an error for \<open>raise_for_status\<close>, so its body is decoded and returned.
\<close>

theorem fetch_non_2xx_counterexample:
  "multiple_choices_world 0 = Response 300 (Some example_page) \<and>
   fst (fetch_neo_data multiple_choices_world ''2024-01-01'' ''2024-01-07'' new_extractor)
     = example_page \<and>
   example_page \<noteq> PNone"
  by (simp add: fetch_neo_data_def Let_def raise_for_status_def new_extractor_def
        example_page_def multiple_choices_world_def)

section \<open>Claims about the store writer\<close>


lemma bind_param_Inr: "bind_param v = Inr w \<Longrightarrow> w = v"
  by (cases v) (auto split: if_splits)

lemma bind_row_Inr: "bind_row r = Inr r' \<Longrightarrow> r' = r"
proof (induction r arbitrary: r')
  case Nil
  then show ?case by simp
next
  case (Cons v vs)
  then show ?case
    by (auto simp: bindE_Inr_iff dest: bind_param_Inr)
qed

lemma insert_rows_Inr:
  "insert_rows (Some rows) rs = Inr table \<Longrightarrow> table = Some (rows @ rs)"
proof (induction rs arbitrary: rows)
  case Nil
  then show ?case by simp
next
  case (Cons r rs)
  from Cons.prems obtain r' where b: "bind_row r = Inr r'"
    and i: "insert_rows (Some (rows @ [r'])) rs = Inr table"
    by (auto split: sum.splits)
  from b have "r' = r" by (rule bind_row_Inr)
  with Cons.IH [OF i] show ?case by simp
qed

lemma insert_rows_bindable:
  "list_all (\<lambda>r. bind_row r = Inr r) rs \<Longrightarrow> insert_rows (Some rows) rs = Inr (Some (rows @ rs))"
  by (induction rs arbitrary: rows) simp_all

lemma example_rows_bindable:
  "list_all (\<lambda>r. bind_row r = Inr r)
     (map asteroid_row [example_asteroid_info, example_asteroid_info])"
  "list_all (\<lambda>r. bind_row r = Inr r)
     (map approach_row [example_approach_info ''2024-01-01'', example_approach_info ''2024-01-02''])"
  by (simp_all add: asteroid_row_def approach_row_def example_asteroid_info_def
        example_approach_info_def)

text \<open>
  Claim C8. Running \<open>insert_data\<close> twice with the same batch on a store whose tables have
  just been created leaves each table with every row of the batch twice, so with twice
  as many rows as the batch has records: every record is inserted as a new row, with no
  upsert and no deduplication.
\<close>

theorem insert_data_twice_doubles:
  assumes "insert_data (create_tables empty_database) batch_asteroids batch_approaches = Inr db1"
    and "insert_data db1 batch_asteroids batch_approaches = Inr db2"
  shows "asteroids db2 =
           Some (map asteroid_row batch_asteroids @ map asteroid_row batch_asteroids) \<and>
         close_approach db2 =
           Some (map approach_row batch_approaches @ map approach_row batch_approaches) \<and>
         row_count (asteroids db2) = 2 * length batch_asteroids \<and>
         row_count (close_approach db2) = 2 * length batch_approaches"
proof -
  from assms(1) have a1: "asteroids db1 = Some (map asteroid_row batch_asteroids)"
    and c1: "close_approach db1 = Some (map approach_row batch_approaches)"
    by (auto simp: insert_data_def create_tables_def empty_database_def bindE_Inr_iff
          dest: insert_rows_Inr)
  from assms(2) have "asteroids db2 =
      Some (map asteroid_row batch_asteroids @ map asteroid_row batch_asteroids)"
    and "close_approach db2 =
      Some (map approach_row batch_approaches @ map approach_row batch_approaches)"
    by (auto simp: insert_data_def a1 c1 bindE_Inr_iff dest: insert_rows_Inr)
  then show ?thesis by (simp add: row_count_def)
qed

theorem insert_data_twice_doubles_witness:
  "\<exists>db1 db2.
     insert_data (create_tables empty_database)
       [example_asteroid_info, example_asteroid_info]
       [example_approach_info ''2024-01-01'', example_approach_info ''2024-01-02''] = Inr db1 \<and>
     insert_data db1
       [example_asteroid_info, example_asteroid_info]
       [example_approach_info ''2024-01-01'', example_approach_info ''2024-01-02''] = Inr db2 \<and>
     row_count (asteroids db2) = 4 \<and> row_count (close_approach db2) = 4"
proof -
  let ?A = "[example_asteroid_info, example_asteroid_info]"
  let ?P = "[example_approach_info ''2024-01-01'', example_approach_info ''2024-01-02'']"
  let ?db1 = "\<lparr>asteroids = Some (map asteroid_row ?A),
               close_approach = Some (map approach_row ?P)\<rparr>"
  let ?db2 = "\<lparr>asteroids = Some (map asteroid_row ?A @ map asteroid_row ?A),
               close_approach = Some (map approach_row ?P @ map approach_row ?P)\<rparr>"
  have 1: "insert_data (create_tables empty_database) ?A ?P = Inr ?db1"
    unfolding insert_data_def create_tables_def empty_database_def
    using insert_rows_bindable [OF example_rows_bindable(1), of "[]"]
      insert_rows_bindable [OF example_rows_bindable(2), of "[]"]
    by simp
  have 2: "insert_data ?db1 ?A ?P = Inr ?db2"
    unfolding insert_data_def
    using insert_rows_bindable [OF example_rows_bindable(1), of "map asteroid_row ?A"]
      insert_rows_bindable [OF example_rows_bindable(2), of "map approach_row ?P"]
    by simp
  from insert_data_twice_doubles [OF 1 2] 1 2 show ?thesis
    by (intro exI [of _ ?db1] exI [of _ ?db2]) simp
qed

end
